theory Spec2Isabelle
  imports Complex_Main "HOL-Library.Multiset" "HOL-Library.Char_ord" "HOL-Library.List_Lexorder"
begin

section \<open>Scoring and decision engine (technical\_agent.py)\<close>

subsection \<open>decision\_from\_score\<close>

text \<open>
  The decision labels are the strings the source returns. Python's \<open>int\<close> is unbounded,
  so the score is an \<open>int\<close>.
\<close>

definition STRONG_BUY :: string where "STRONG_BUY = ''STRONG BUY''"
definition BUY :: string where "BUY = ''BUY''"
definition HOLD_WAIT :: string where "HOLD_WAIT = ''HOLD / WAIT''"
definition SELL :: string where "SELL = ''SELL''"
definition STRONG_SELL :: string where "STRONG_SELL = ''STRONG SELL''"

definition decision_from_score :: "int \<Rightarrow> string" where
  "decision_from_score score =
     (if score \<ge> 6 then ''STRONG BUY''
      else if score \<ge> 3 then ''BUY''
      else if score \<le> -6 then ''STRONG SELL''
      else if score \<le> -3 then ''SELL''
      else ''HOLD / WAIT'')"

text \<open>
  The order of the five labels used to state monotonicity: sell side below hold below buy
  side. Any other string has no rank.
\<close>

definition decision_rank :: "string \<Rightarrow> int option" where
  "decision_rank d =
     (if d = ''STRONG SELL'' then Some (-2)
      else if d = ''SELL'' then Some (-1)
      else if d = ''HOLD / WAIT'' then Some 0
      else if d = ''BUY'' then Some 1
      else if d = ''STRONG BUY'' then Some 2
      else None)"

subsection \<open>Float values\<close>

text \<open>
  A pandas/numpy float is modelled by its value: a real number, one of the two infinities,
  or NaN. Arithmetic on finite values is exact (rounding and overflow are not modelled).
  Comparisons follow IEEE 754: every comparison with NaN is false.
\<close>

datatype pyfloat = Fin real | PInf | NInf | NaN

fun flt :: "pyfloat \<Rightarrow> pyfloat \<Rightarrow> bool" where
  "flt (Fin a) (Fin b) = (a < b)"
| "flt (Fin a) PInf = True"
| "flt NInf (Fin b) = True"
| "flt NInf PInf = True"
| "flt _ _ = False"

definition fgt :: "pyfloat \<Rightarrow> pyfloat \<Rightarrow> bool" where
  "fgt a b = flt b a"

text \<open>
  Python's built-in \<open>max(a, b)\<close> and \<open>min(a, b)\<close>: the second argument wins only when it
  compares strictly greater (smaller) than the first.
\<close>

definition py_max :: "pyfloat \<Rightarrow> pyfloat \<Rightarrow> pyfloat" where
  "py_max a b = (if fgt b a then b else a)"

definition py_min :: "pyfloat \<Rightarrow> pyfloat \<Rightarrow> pyfloat" where
  "py_min a b = (if flt b a then b else a)"

datatype py_error = IndexError | ZeroDivisionError | TypeError | KeyError

record indicator_row =
  close :: pyfloat
  ema20 :: pyfloat
  ema50 :: pyfloat
  ema200 :: pyfloat
  sma200 :: pyfloat
  rsi14 :: pyfloat
  macd :: pyfloat
  macd_signal :: pyfloat
  atr14 :: pyfloat
  adx14 :: pyfloat
  bb_lower :: pyfloat
  bb_upper :: pyfloat
  ichimoku_tenkan :: pyfloat
  ichimoku_kijun :: pyfloat
  ichimoku_span_a :: pyfloat
  ichimoku_span_b :: pyfloat

subsection \<open>score\_technical\_indicators\<close>

text \<open>
  \<open>ind_df\<close> is the indicator frame, one row per bar; \<open>iloc[-1]\<close> raises IndexError on an
  empty frame. The parameter \<open>fmt\<close> stands for Python's \<open>format(x, ".1f")\<close>, which the
  reasons use and the score does not. The unused \<open>style\<close> argument is left out.
\<close>

definition score_technical_indicators ::
  "(pyfloat \<Rightarrow> string) \<Rightarrow> indicator_row list \<Rightarrow> py_error + (int \<times> string list)" where
  "score_technical_indicators fmt ind_df =
    (if ind_df = [] then Inl IndexError
     else
      let lastrow = last ind_df;
          score = (0::int);
          reasons = [];
          (score, reasons) =
            (if fgt (rsi14 lastrow) (Fin 70) then
               (score - 1, reasons @ [''RSI '' @ fmt (rsi14 lastrow) @ '' (ipercomprato).''])
             else if flt (rsi14 lastrow) (Fin 30) then
               (score + 1,
                reasons @ [''RSI '' @ fmt (rsi14 lastrow) @ '' (ipervenduto, possibile rimbalzo).''])
             else (score, reasons @ [''RSI '' @ fmt (rsi14 lastrow) @ '' (zona neutra).'']));
          (score, reasons) =
            (if fgt (close lastrow) (ema20 lastrow) \<and> fgt (close lastrow) (ema50 lastrow) then
               (score + 1, reasons @ [''Prezzo sopra EMA20 e EMA50 (trend breve positivo).''])
             else if flt (close lastrow) (ema20 lastrow) \<and> flt (close lastrow) (ema50 lastrow) then
               (score - 1, reasons @ [''Prezzo sotto EMA20 e EMA50 (trend breve debole).''])
             else (score, reasons @ [''Prezzo misto rispetto a EMA20/EMA50 (trend incerto).'']));
          (score, reasons) =
            (if fgt (close lastrow) (ema200 lastrow) \<and> fgt (close lastrow) (sma200 lastrow) then
               (score + 2, reasons @ [''Prezzo sopra EMA200 e SMA200 (trend lungo positivo).''])
             else if flt (close lastrow) (ema200 lastrow) \<and> flt (close lastrow) (sma200 lastrow) then
               (score - 2, reasons @ [''Prezzo sotto EMA200 e SMA200 (trend lungo debole).''])
             else (score, reasons @
                     [''Prezzo vicino a EMA200/SMA200 (zona di equilibrio di lungo periodo).'']));
          (score, reasons) =
            (if fgt (macd lastrow) (macd_signal lastrow) then
               (score + 1, reasons @ [''MACD sopra il segnale (momentum rialzista).''])
             else (score - 1, reasons @ [''MACD sotto il segnale (momentum ribassista).'']));
          (score, reasons) =
            (if flt (close lastrow) (bb_lower lastrow) then
               (score + 1, reasons @
                  [''Prezzo vicino/sotto banda bassa di Bollinger (possibile rimbalzo).''])
             else if fgt (close lastrow) (bb_upper lastrow) then
               (score - 1, reasons @
                  [''Prezzo vicino/sopra banda alta di Bollinger (possibile correzione).''])
             else (score, reasons));
          reasons =
            (if flt (adx14 lastrow) (Fin 20) then
               reasons @ [''ADX '' @ fmt (adx14 lastrow) @ '' (trend debole/laterale).'']
             else if flt (adx14 lastrow) (Fin 30) then
               reasons @ [''ADX '' @ fmt (adx14 lastrow) @ '' (trend moderato).'']
             else reasons @ [''ADX '' @ fmt (adx14 lastrow) @ '' (trend forte).'']);
          cloud_top = py_max (ichimoku_span_a lastrow) (ichimoku_span_b lastrow);
          cloud_bottom = py_min (ichimoku_span_a lastrow) (ichimoku_span_b lastrow);
          (score, reasons) =
            (if fgt (close lastrow) cloud_top then
               (score + 1, reasons @ [''Prezzo sopra la nuvola Ichimoku (scenario rialzista).''])
             else if flt (close lastrow) cloud_bottom then
               (score - 1, reasons @ [''Prezzo sotto la nuvola Ichimoku (scenario ribassista).''])
             else (score, reasons @ [''Prezzo dentro la nuvola Ichimoku (zona di indecisione).'']));
          reasons =
            (if fgt (close lastrow) (ichimoku_kijun lastrow) then
               reasons @ [''Prezzo sopra la Kijun-sen (supporto dinamico).'']
             else reasons @ [''Prezzo sotto la Kijun-sen (resistenza dinamica).''])
      in Inr (score, reasons))"

subsection \<open>The rule table of the specification\<close>

text \<open>
  The specification describes the score as a sum over independent rules, each giving a
  delta and a reason. These definitions follow its words (section 4.2), one function per
  rule, in the order given there; the ADX and Kijun rules always have delta 0.
\<close>

type_synonym rule = "(pyfloat \<Rightarrow> string) \<Rightarrow> indicator_row \<Rightarrow> int \<times> string list"

definition rule_rsi :: rule where
  "rule_rsi fmt r =
     (if fgt (rsi14 r) (Fin 70) then (-1, [''RSI '' @ fmt (rsi14 r) @ '' (ipercomprato).''])
      else if flt (rsi14 r) (Fin 30)
        then (1, [''RSI '' @ fmt (rsi14 r) @ '' (ipervenduto, possibile rimbalzo).''])
      else (0, [''RSI '' @ fmt (rsi14 r) @ '' (zona neutra).'']))"

definition rule_short_trend :: rule where
  "rule_short_trend fmt r =
     (if fgt (close r) (ema20 r) \<and> fgt (close r) (ema50 r)
        then (1, [''Prezzo sopra EMA20 e EMA50 (trend breve positivo).''])
      else if flt (close r) (ema20 r) \<and> flt (close r) (ema50 r)
        then (-1, [''Prezzo sotto EMA20 e EMA50 (trend breve debole).''])
      else (0, [''Prezzo misto rispetto a EMA20/EMA50 (trend incerto).'']))"

definition rule_long_trend :: rule where
  "rule_long_trend fmt r =
     (if fgt (close r) (ema200 r) \<and> fgt (close r) (sma200 r)
        then (2, [''Prezzo sopra EMA200 e SMA200 (trend lungo positivo).''])
      else if flt (close r) (ema200 r) \<and> flt (close r) (sma200 r)
        then (-2, [''Prezzo sotto EMA200 e SMA200 (trend lungo debole).''])
      else (0, [''Prezzo vicino a EMA200/SMA200 (zona di equilibrio di lungo periodo).'']))"

definition rule_macd :: rule where
  "rule_macd fmt r =
     (if fgt (macd r) (macd_signal r) then (1, [''MACD sopra il segnale (momentum rialzista).''])
      else (-1, [''MACD sotto il segnale (momentum ribassista).'']))"

definition rule_bollinger :: rule where
  "rule_bollinger fmt r =
     (if flt (close r) (bb_lower r)
        then (1, [''Prezzo vicino/sotto banda bassa di Bollinger (possibile rimbalzo).''])
      else if fgt (close r) (bb_upper r)
        then (-1, [''Prezzo vicino/sopra banda alta di Bollinger (possibile correzione).''])
      else (0, []))"

definition rule_adx :: rule where
  "rule_adx fmt r =
     (if flt (adx14 r) (Fin 20) then (0, [''ADX '' @ fmt (adx14 r) @ '' (trend debole/laterale).''])
      else if flt (adx14 r) (Fin 30) then (0, [''ADX '' @ fmt (adx14 r) @ '' (trend moderato).''])
      else (0, [''ADX '' @ fmt (adx14 r) @ '' (trend forte).'']))"

definition rule_ichimoku :: rule where
  "rule_ichimoku fmt r =
     (if fgt (close r) (py_max (ichimoku_span_a r) (ichimoku_span_b r))
        then (1, [''Prezzo sopra la nuvola Ichimoku (scenario rialzista).''])
      else if flt (close r) (py_min (ichimoku_span_a r) (ichimoku_span_b r))
        then (-1, [''Prezzo sotto la nuvola Ichimoku (scenario ribassista).''])
      else (0, [''Prezzo dentro la nuvola Ichimoku (zona di indecisione).'']))"

definition rule_kijun :: rule where
  "rule_kijun fmt r =
     (if fgt (close r) (ichimoku_kijun r)
        then (0, [''Prezzo sopra la Kijun-sen (supporto dinamico).''])
      else (0, [''Prezzo sotto la Kijun-sen (resistenza dinamica).'']))"

definition rules :: "rule list" where
  "rules = [rule_rsi, rule_short_trend, rule_long_trend, rule_macd, rule_bollinger, rule_adx,
            rule_ichimoku, rule_kijun]"

text \<open>A sample row, used to run the scoring on concrete values.\<close>

definition example_row :: indicator_row where
  "example_row = \<lparr>close = Fin 105, ema20 = Fin 100, ema50 = Fin 98, ema200 = Fin 90,
     sma200 = Fin 92, rsi14 = Fin 75, macd = Fin 2, macd_signal = Fin 1, atr14 = Fin 3,
     adx14 = Fin 25, bb_lower = Fin 95, bb_upper = Fin 110, ichimoku_tenkan = Fin 103,
     ichimoku_kijun = Fin 101, ichimoku_span_a = Fin 99, ichimoku_span_b = Fin 97\<rparr>"

section \<open>Order constructor (order\_agent.py)\<close>

text \<open>
  Prices, ATR and account figures are Python floats; they are modelled as real numbers
  (exact arithmetic, finite values). Division of Python scalars raises ZeroDivisionError
  on a zero divisor, which the model keeps as an error branch.
\<close>

definition py_truediv :: "real \<Rightarrow> real \<Rightarrow> py_error + real" where
  "py_truediv a b = (if b = 0 then Inl ZeroDivisionError else Inr (a / b))"

text \<open>The two values of \<open>config.py\<close> the order constructor reads, and their shipped defaults.\<close>

record config =
  ACCOUNT_SIZE :: real
  RISK_PER_TRADE_PCT :: real

definition config_py :: config where
  "config_py = \<lparr>ACCOUNT_SIZE = 10000, RISK_PER_TRADE_PCT = 1\<rparr>"

text \<open>
  The \<open>tech_analysis\<close> dictionary with the keys the function reads, and the order dictionary
  it returns. Field names carry a prefix because several records of the program share
  key names.
\<close>

record indicators =
  ind_last_price :: real
  ind_atr14 :: real

record tech_analysis =
  ta_score :: int
  ta_decision :: string
  ta_indicators :: indicators
  ta_reasons :: "string list"

record order =
  o_timestamp :: string
  o_symbol :: string
  o_name :: string
  o_category :: string
  o_side :: string
  o_entry :: real
  o_stop_loss :: real
  o_take_profit :: real
  o_reward_risk :: real
  o_technical_score :: int
  o_technical_decision :: string
  o_composite_score :: real
  o_atr14 :: real
  o_position_size :: real
  o_notional :: real
  o_risk_amount :: real
  o_reason_short :: string

text \<open>\<open>_log_order\<close> appends one row to the order log; the log is passed as a list of rows.\<close>

definition log_order :: "order \<Rightarrow> order list \<Rightarrow> order list" where
  "log_order ord log_file = log_file @ [ord]"

text \<open>
  \<open>now\<close> is the value of \<open>datetime.utcnow().isoformat()\<close>. The result is the returned
  proposal (or \<open>None\<close>) together with the order log after the call.
\<close>

definition build_order_from_analysis ::
  "config \<Rightarrow> string \<Rightarrow> order list \<Rightarrow> string \<Rightarrow> string \<Rightarrow> string \<Rightarrow> tech_analysis \<Rightarrow> real
     \<Rightarrow> py_error + (order option \<times> order list)" where
  "build_order_from_analysis cfg now log_file symbol name category tech_analysis composite_score =
    (let score = ta_score tech_analysis;
         decision = ta_decision tech_analysis;
         ind = ta_indicators tech_analysis;
         reasons = ta_reasons tech_analysis;
         last_price = ind_last_price ind;
         atr = ind_atr14 ind
     in
     if atr \<le> 0 \<or> last_price \<le> 0 then Inr (None, log_file)
     else
       case (if score \<ge> 4 \<and> composite_score \<ge> 4 then Some ''LONG''
             else if score \<le> -4 \<and> composite_score \<le> -4 then Some ''SHORT''
             else None) of
         None \<Rightarrow> Inr (None, log_file)
       | Some side \<Rightarrow>
          (let atr_mult_sl =
                 (if category = ''CRYPTO'' then 2.5
                  else if category = ''STOCK'' then 1.8
                  else 1.5);
               sl_distance = atr * atr_mult_sl;
               reward_risk = 2.0;
               (entry, stop_loss, take_profit) =
                 (if side = ''LONG''
                  then (last_price, last_price - sl_distance,
                        last_price + sl_distance * reward_risk)
                  else (last_price, last_price + sl_distance,
                        last_price - sl_distance * reward_risk))
           in
           if stop_loss \<le> 0 \<or> take_profit \<le> 0 then Inr (None, log_file)
           else
            (let risk_amount = ACCOUNT_SIZE cfg * (RISK_PER_TRADE_PCT cfg / 100.0);
                 distance_to_sl = \<bar>entry - stop_loss\<bar>
             in
             if distance_to_sl \<le> 0 then Inr (None, log_file)
             else
               case py_truediv risk_amount distance_to_sl of
                 Inl e \<Rightarrow> Inl e
               | Inr position_size \<Rightarrow>
                  (let notional = position_size * entry;
                       reason_short =
                         (if reasons \<noteq> [] then hd reasons
                          else ''Decisione tecnica: '' @ decision);
                       ord = \<lparr>o_timestamp = now, o_symbol = symbol, o_name = name,
                              o_category = category, o_side = side, o_entry = entry,
                              o_stop_loss = stop_loss, o_take_profit = take_profit,
                              o_reward_risk = reward_risk, o_technical_score = score,
                              o_technical_decision = decision,
                              o_composite_score = composite_score, o_atr14 = atr,
                              o_position_size = position_size, o_notional = notional,
                              o_risk_amount = risk_amount, o_reason_short = reason_short\<rparr>
                   in Inr (Some ord, log_order ord log_file)))))"

text \<open>
  Names for the quantities the specification speaks of: the stop multiplier of a category
  and the two strength-and-agreement conditions with threshold 4.
\<close>

definition category_multiplier :: "string \<Rightarrow> real" where
  "category_multiplier category =
     (if category = ''CRYPTO'' then 2.5 else if category = ''STOCK'' then 1.8 else 1.5)"

definition passes_long :: "tech_analysis \<Rightarrow> real \<Rightarrow> bool" where
  "passes_long ta composite_score = (ta_score ta \<ge> 4 \<and> composite_score \<ge> 4)"

definition passes_short :: "tech_analysis \<Rightarrow> real \<Rightarrow> bool" where
  "passes_short ta composite_score = (ta_score ta \<le> -4 \<and> composite_score \<le> -4)"


text \<open>Sample analyses for running the constructor on concrete values.\<close>

definition example_analysis :: tech_analysis where
  "example_analysis = \<lparr>ta_score = 6, ta_decision = ''STRONG BUY'',
     ta_indicators = \<lparr>ind_last_price = 100, ind_atr14 = 2\<rparr>,
     ta_reasons = [''RSI 25.0 (ipervenduto, possibile rimbalzo).'']\<rparr>"

definition analysis_with :: "int \<Rightarrow> real \<Rightarrow> real \<Rightarrow> tech_analysis" where
  "analysis_with score price atr = \<lparr>ta_score = score, ta_decision = decision_from_score score,
     ta_indicators = \<lparr>ind_last_price = price, ind_atr14 = atr\<rparr>, ta_reasons = []\<rparr>"

section \<open>Ensemble combiner (ensemble\_manager.py)\<close>

text \<open>The two module constants of \<open>ensemble_manager.py\<close>.\<close>

definition TECH_WEIGHT :: real where "TECH_WEIGHT = 1.0"
definition NEWS_WEIGHT :: real where "NEWS_WEIGHT = 0.0"

text \<open>
  An asset dictionary: \<open>symbol\<close> is required, \<open>name\<close> and \<open>category\<close> are read with
  \<open>.get\<close> and a default. \<open>tech_result\<close> holds the keys of the result of
  \<open>run_technical_agent\<close> that \<open>analyze_one\<close> reads.
\<close>

record asset =
  a_symbol :: string
  a_name :: "string option"
  a_category :: "string option"

record tech_result =
  r_score :: int
  r_decision :: string
  r_reasons :: "string list"

record ensemble_entry =
  e_symbol :: string
  e_name :: string
  e_category :: string
  e_tech_score :: int
  e_tech_decision :: string
  e_tech_reasons :: "string list"
  e_news_score :: real
  e_news_titles :: "string list"
  e_ensemble_score :: real

text \<open>
  \<open>run_technical_agent\<close> downloads market data, so its outcome for a symbol is a parameter:
  \<open>Inr\<close> the result dictionary, \<open>Inl\<close> the exception it raised, which the \<open>try\<close> block
  catches.
\<close>

definition analyze_one :: "(string \<Rightarrow> 'e + tech_result) \<Rightarrow> asset \<Rightarrow> ensemble_entry" where
  "analyze_one run_technical_agent asset =
    (let symbol = a_symbol asset;
         name = (case a_name asset of Some n \<Rightarrow> n | None \<Rightarrow> symbol);
         category = (case a_category asset of Some c \<Rightarrow> c | None \<Rightarrow> ''UNKNOWN'');
         tech_score = (0::int);
         tech_decision = ''N/A'';
         tech_reasons = [];
         news_score = (0.0::real);
         news_titles = [];
         (tech_score, tech_decision, tech_reasons) =
           (case run_technical_agent symbol of
              Inr result \<Rightarrow> (r_score result, r_decision result, r_reasons result)
            | Inl e \<Rightarrow> (tech_score, tech_decision, tech_reasons));
         ensemble_score = TECH_WEIGHT * real_of_int tech_score + NEWS_WEIGHT * news_score
     in \<lparr>e_symbol = symbol, e_name = name, e_category = category,
         e_tech_score = tech_score, e_tech_decision = tech_decision,
         e_tech_reasons = tech_reasons, e_news_score = news_score,
         e_news_titles = news_titles, e_ensemble_score = ensemble_score\<rparr>)"

text \<open>
  The two ranked lists \<open>print_rankings\<close> prints. Python's \<open>sorted\<close> is stable, also with
  \<open>reverse=True\<close>, which amounts to a stable ascending sort on the negated key.
\<close>

definition print_rankings :: "ensemble_entry list \<Rightarrow> ensemble_entry list \<times> ensemble_entry list" where
  "print_rankings results =
    (let buy_like = filter (\<lambda>r. e_tech_decision r \<in> {''BUY'', ''STRONG BUY''}) results;
         sell_like = filter (\<lambda>r. e_tech_decision r \<in> {''SELL'', ''STRONG SELL''}) results;
         buy_like = take 15 (sort_key (\<lambda>r. - e_ensemble_score r) buy_like);
         sell_like = take 15 (sort_key (\<lambda>r. e_ensemble_score r) sell_like)
     in (buy_like, sell_like))"

text \<open>The same two rankings computed from the technical score alone.\<close>

definition rankings_by_tech_score ::
  "ensemble_entry list \<Rightarrow> ensemble_entry list \<times> ensemble_entry list" where
  "rankings_by_tech_score results =
    (take 15 (sort_key (\<lambda>r. - real_of_int (e_tech_score r))
        (filter (\<lambda>r. e_tech_decision r \<in> {''BUY'', ''STRONG BUY''}) results)),
     take 15 (sort_key (\<lambda>r. real_of_int (e_tech_score r))
        (filter (\<lambda>r. e_tech_decision r \<in> {''SELL'', ''STRONG SELL''}) results)))"

text \<open>A sample technical agent: one symbol with data, every other symbol failing.\<close>

definition example_agent :: "string \<Rightarrow> string + tech_result" where
  "example_agent symbol =
     (if symbol = ''BTC-USD''
      then Inr \<lparr>r_score = 5, r_decision = ''BUY'', r_reasons = [''MACD sopra il segnale (momentum rialzista).'']\<rparr>
      else Inl ''Nessun dato scaricato'')"

section \<open>Indicator engine (technical\_agent.py)\<close>

subsection \<open>Float arithmetic with NaN and infinities\<close>

text \<open>
  The arithmetic pandas and numpy apply to series elements: finite values are computed
  exactly, the special values follow IEEE 754, and no operation raises.
\<close>

definition isnan :: "pyfloat \<Rightarrow> bool" where
  "isnan x = (x = NaN)"

fun fneg :: "pyfloat \<Rightarrow> pyfloat" where
  "fneg (Fin a) = Fin (- a)"
| "fneg PInf = NInf"
| "fneg NInf = PInf"
| "fneg NaN = NaN"

fun fabs :: "pyfloat \<Rightarrow> pyfloat" where
  "fabs (Fin a) = Fin \<bar>a\<bar>"
| "fabs PInf = PInf"
| "fabs NInf = PInf"
| "fabs NaN = NaN"

fun fadd :: "pyfloat \<Rightarrow> pyfloat \<Rightarrow> pyfloat" where
  "fadd (Fin a) (Fin b) = Fin (a + b)"
| "fadd NaN _ = NaN"
| "fadd _ NaN = NaN"
| "fadd PInf NInf = NaN"
| "fadd NInf PInf = NaN"
| "fadd PInf _ = PInf"
| "fadd _ PInf = PInf"
| "fadd NInf _ = NInf"
| "fadd _ NInf = NInf"

definition fsub :: "pyfloat \<Rightarrow> pyfloat \<Rightarrow> pyfloat" where
  "fsub a b = fadd a (fneg b)"

text \<open>The sign of a float as -1, 0 or 1 (NaN has none).\<close>

fun fsign :: "pyfloat \<Rightarrow> int" where
  "fsign (Fin a) = (if a < 0 then -1 else if a = 0 then 0 else 1)"
| "fsign PInf = 1"
| "fsign NInf = -1"
| "fsign NaN = 0"

definition inf_of_sign :: "int \<Rightarrow> pyfloat" where
  "inf_of_sign s = (if s = 0 then NaN else if s < 0 then NInf else PInf)"

fun fmul :: "pyfloat \<Rightarrow> pyfloat \<Rightarrow> pyfloat" where
  "fmul (Fin a) (Fin b) = Fin (a * b)"
| "fmul NaN _ = NaN"
| "fmul _ NaN = NaN"
| "fmul a b = inf_of_sign (fsign a * fsign b)"

text \<open>
  numpy division: a zero divisor gives an infinity (or NaN for 0/0) instead of raising.
  Zero is taken as positive zero.
\<close>

fun fdiv :: "pyfloat \<Rightarrow> pyfloat \<Rightarrow> pyfloat" where
  "fdiv (Fin a) (Fin b) = (if b = 0 then inf_of_sign (fsign (Fin a)) else Fin (a / b))"
| "fdiv NaN _ = NaN"
| "fdiv _ NaN = NaN"
| "fdiv (Fin a) _ = Fin 0"
| "fdiv a (Fin b) = inf_of_sign (fsign a * (if b < 0 then -1 else 1))"
| "fdiv _ _ = NaN"

definition fsum :: "pyfloat list \<Rightarrow> pyfloat" where
  "fsum xs = foldl fadd (Fin 0) xs"

subsection \<open>Series operations\<close>

text \<open>
  A pandas Series is a list of floats. \<open>diff\<close> puts NaN first and the differences of
  neighbours after it; \<open>shift1\<close> is \<open>shift(1)\<close>; \<open>clip\<close> and \<open>replace\<close> leave NaN alone.
  \<open>rolling f period\<close> is \<open>rolling(period)\<close> followed by an aggregation \<open>f\<close>: position \<open>i\<close>
  is NaN until \<open>period\<close> values are available and whenever the window holds a NaN,
  otherwise \<open>f\<close> of the last \<open>period\<close> values up to \<open>i\<close>.
\<close>

fun diff_from :: "pyfloat \<Rightarrow> pyfloat list \<Rightarrow> pyfloat list" where
  "diff_from prev [] = []"
| "diff_from prev (x # xs) = fsub x prev # diff_from x xs"

definition diff :: "pyfloat list \<Rightarrow> pyfloat list" where
  "diff xs = (case xs of [] \<Rightarrow> [] | x # rest \<Rightarrow> NaN # diff_from x rest)"

definition shift1 :: "pyfloat list \<Rightarrow> pyfloat list" where
  "shift1 xs = (case xs of [] \<Rightarrow> [] | _ \<Rightarrow> NaN # butlast xs)"

definition clip_lower :: "pyfloat \<Rightarrow> pyfloat \<Rightarrow> pyfloat" where
  "clip_lower lo x = (if flt x lo then lo else x)"

definition clip_upper :: "pyfloat \<Rightarrow> pyfloat \<Rightarrow> pyfloat" where
  "clip_upper hi x = (if fgt x hi then hi else x)"

definition replace :: "pyfloat \<Rightarrow> pyfloat \<Rightarrow> pyfloat list \<Rightarrow> pyfloat list" where
  "replace old new xs = map (\<lambda>x. if x = old then new else x) xs"

definition window :: "nat \<Rightarrow> nat \<Rightarrow> pyfloat list \<Rightarrow> pyfloat list" where
  "window period i xs = take period (drop (i + 1 - period) xs)"

definition rolling :: "(pyfloat list \<Rightarrow> pyfloat) \<Rightarrow> nat \<Rightarrow> pyfloat list \<Rightarrow> pyfloat list" where
  "rolling f period xs =
     map (\<lambda>i. if i + 1 < period \<or> NaN \<in> set (window period i xs) then NaN
               else f (window period i xs))
         [0..<length xs]"

definition rolling_sum :: "nat \<Rightarrow> pyfloat list \<Rightarrow> pyfloat list" where
  "rolling_sum period xs = rolling fsum period xs"

definition rolling_mean :: "nat \<Rightarrow> pyfloat list \<Rightarrow> pyfloat list" where
  "rolling_mean period xs = rolling (\<lambda>w. fdiv (fsum w) (Fin (real (length w)))) period xs"

subsection \<open>RSI\<close>

text \<open>
  The function \<open>_rsi\<close> of the source. Its local series \<open>avg_gain\<close>, \<open>avg_loss\<close> and \<open>rs\<close> have
  names of their own so that statements can refer to them.
\<close>

definition rsi_avg_gain :: "pyfloat list \<Rightarrow> nat \<Rightarrow> pyfloat list" where
  "rsi_avg_gain series period =
     (let delta = diff series;
          gain = map (clip_lower (Fin 0)) delta
      in rolling_mean period gain)"

definition rsi_avg_loss :: "pyfloat list \<Rightarrow> nat \<Rightarrow> pyfloat list" where
  "rsi_avg_loss series period =
     (let delta = diff series;
          loss = map fneg (map (clip_upper (Fin 0)) delta)
      in rolling_mean period loss)"

definition rsi_rs :: "pyfloat list \<Rightarrow> nat \<Rightarrow> pyfloat list" where
  "rsi_rs series period =
     map2 fdiv (rsi_avg_gain series period) (replace (Fin 0) NaN (rsi_avg_loss series period))"

definition rsi :: "pyfloat list \<Rightarrow> nat \<Rightarrow> pyfloat list" where
  "rsi series period =
     (let rs = rsi_rs series period
      in map (\<lambda>r. fsub (Fin 100) (fdiv (Fin 100) (fadd (Fin 1) r))) rs)"


subsection \<open>Dropping incomplete rows\<close>

text \<open>
  \<open>compute_indicators\<close> puts the sixteen series into one frame and calls \<open>dropna()\<close>, which
  removes every row holding a NaN in any column.
\<close>

definition row_has_nan :: "indicator_row \<Rightarrow> bool" where
  "row_has_nan r =
     (NaN \<in> set [close r, ema20 r, ema50 r, ema200 r, sma200 r, rsi14 r, macd r, macd_signal r,
                 atr14 r, adx14 r, bb_lower r, bb_upper r, ichimoku_tenkan r, ichimoku_kijun r,
                 ichimoku_span_a r, ichimoku_span_b r])"

definition dropna :: "indicator_row list \<Rightarrow> indicator_row list" where
  "dropna rows = filter (\<lambda>r. \<not> row_has_nan r) rows"

text \<open>Sample closing prices: a zig-zag series and a strictly rising one.\<close>

definition example_closes :: "real list" where
  "example_closes = [1, 2, 3, 2, 4, 5, 4, 6, 7, 6, 8, 9, 8, 10, 11, 10]"

definition rising_closes :: "real list" where
  "rising_closes = [1, 2, 3, 4, 5, 6, 7, 8, 9, 10, 11, 12, 13, 14, 15, 16]"

definition example_frame :: "indicator_row list" where
  "example_frame =
     map (\<lambda>(c, r). example_row\<lparr>close := Fin c, rsi14 := r\<rparr>)
         (zip example_closes (rsi (map Fin example_closes) 14))"

text \<open>A float that is NaN or a non-negative real.\<close>

definition nn :: "pyfloat \<Rightarrow> bool" where
  "nn x = (x = NaN \<or> (\<exists>r. x = Fin r \<and> 0 \<le> r))"

subsection \<open>ATR and ADX\<close>

text \<open>One OHLCV bar; \<open>astype(float)\<close> makes its columns float series.\<close>

record bar =
  b_open :: real
  b_high :: real
  b_low :: real
  b_close :: real
  b_volume :: real

text \<open>Row-wise maximum that skips NaN, as \<open>DataFrame.max(axis=1)\<close> does.\<close>

definition fmax :: "pyfloat \<Rightarrow> pyfloat \<Rightarrow> pyfloat" where
  "fmax a b = (if flt a b then b else a)"

definition max_skipna :: "pyfloat list \<Rightarrow> pyfloat" where
  "max_skipna xs =
     (case filter (\<lambda>x. x \<noteq> NaN) xs of [] \<Rightarrow> NaN | y # ys \<Rightarrow> foldl fmax y ys)"

text \<open>
  \<open>true_range\<close> is the series \<open>tr\<close> of \<open>_atr\<close>, and \<open>atr\<close> is \<open>_atr\<close>. The function \<open>_adx\<close> is
  \<open>adx\<close>; its local series \<open>plus_dm\<close>, \<open>minus_dm\<close>, \<open>plus_di\<close>, \<open>minus_di\<close> and \<open>dx\<close> have
  names of their own.
\<close>

definition true_range :: "bar list \<Rightarrow> pyfloat list" where
  "true_range df =
     (let high = map (\<lambda>b. Fin (b_high b)) df;
          low = map (\<lambda>b. Fin (b_low b)) df;
          close = map (\<lambda>b. Fin (b_close b)) df;
          prev_close = shift1 close;
          tr1 = map2 fsub high low;
          tr2 = map fabs (map2 fsub high prev_close);
          tr3 = map fabs (map2 fsub low prev_close)
      in map (\<lambda>(a, b, c). max_skipna [a, b, c]) (zip tr1 (zip tr2 tr3)))"

definition atr :: "bar list \<Rightarrow> nat \<Rightarrow> pyfloat list" where
  "atr df period = rolling_mean period (true_range df)"

definition adx_plus_dm :: "bar list \<Rightarrow> pyfloat list" where
  "adx_plus_dm df =
     (let high = map (\<lambda>b. Fin (b_high b)) df;
          low = map (\<lambda>b. Fin (b_low b)) df;
          up_move = diff high;
          down_move = map fneg (diff low)
      in map2 (\<lambda>u d. if fgt u d \<and> fgt u (Fin 0) then u else Fin 0.0) up_move down_move)"

definition adx_minus_dm :: "bar list \<Rightarrow> pyfloat list" where
  "adx_minus_dm df =
     (let high = map (\<lambda>b. Fin (b_high b)) df;
          low = map (\<lambda>b. Fin (b_low b)) df;
          up_move = diff high;
          down_move = map fneg (diff low)
      in map2 (\<lambda>u d. if fgt d u \<and> fgt d (Fin 0) then d else Fin 0.0) up_move down_move)"

definition adx_plus_di :: "bar list \<Rightarrow> nat \<Rightarrow> pyfloat list" where
  "adx_plus_di df period =
     (let tr = atr df 1
      in map2 fdiv (map (fmul (Fin 100)) (rolling_sum period (adx_plus_dm df)))
                   (rolling_sum period tr))"

definition adx_minus_di :: "bar list \<Rightarrow> nat \<Rightarrow> pyfloat list" where
  "adx_minus_di df period =
     (let tr = atr df 1
      in map2 fdiv (map (fmul (Fin 100)) (rolling_sum period (adx_minus_dm df)))
                   (rolling_sum period tr))"

definition adx_dx :: "bar list \<Rightarrow> nat \<Rightarrow> pyfloat list" where
  "adx_dx df period =
     map2 (\<lambda>plus_di minus_di.
             fmul (fdiv (fabs (fsub plus_di minus_di)) (fabs (fadd plus_di minus_di))) (Fin 100))
          (adx_plus_di df period) (adx_minus_di df period)"

definition adx :: "bar list \<Rightarrow> nat \<Rightarrow> pyfloat list" where
  "adx df period = rolling_mean period (adx_dx df period)"

text \<open>Sample bars: a market that does not move, and a steady up-trend.\<close>

definition flat_bar :: bar where
  "flat_bar = \<lparr>b_open = 10, b_high = 11, b_low = 9, b_close = 10, b_volume = 1000\<rparr>"

definition flat_bars :: "bar list" where
  "flat_bars = replicate 27 flat_bar"

definition trend_bar :: "nat \<Rightarrow> bar" where
  "trend_bar n = \<lparr>b_open = 10 + real n, b_high = 11 + real n, b_low = 9 + real n,
                   b_close = 10 + real n, b_volume = 1000\<rparr>"


definition trend_bars :: "bar list" where
  "trend_bars = map trend_bar [0..<27]"

definition trend_frame :: "indicator_row list" where
  "trend_frame = map (\<lambda>a. example_row\<lparr>adx14 := a\<rparr>) (adx trend_bars 14)"

section \<open>Backtest evaluator (backtest.py)\<close>

text \<open>
  A \<open>datetime.date\<close> is modelled by its day number, so that adding
  \<open>timedelta(days=h)\<close> is adding \<open>h\<close>. A price frame is the list of its rows: the date
  in the index and the close, which is finite because the frame went through \<open>dropna\<close>.
\<close>

type_synonym date = int

type_synonym price_frame = "(date \<times> real) list"

text \<open>
  \<open>float(df.loc[d, "Close"])\<close>: the close of the row labelled \<open>d\<close>. A label that occurs
  several times selects a Series, which \<open>float\<close> refuses with a TypeError.
\<close>

definition loc_close :: "price_frame \<Rightarrow> date \<Rightarrow> py_error + pyfloat" where
  "loc_close df d =
     (case filter (\<lambda>row. fst row = d) df of
        [] \<Rightarrow> Inl KeyError
      | [row] \<Rightarrow> Inr (Fin (snd row))
      | _ \<Rightarrow> Inl TypeError)"

text \<open>The result pair is (price\_entry, price\_future); \<open>np.nan\<close> is \<open>NaN\<close>.\<close>

definition get_future_price ::
  "price_frame \<Rightarrow> date \<Rightarrow> int \<Rightarrow> py_error + (pyfloat \<times> pyfloat)" where
  "get_future_price df signal_date horizon_days =
     (if df = [] then Inr (NaN, NaN)
      else
        let dates_sorted = sort (map fst df);
            possible_entry_dates = filter (\<lambda>d. d \<ge> signal_date) dates_sorted
        in if length possible_entry_dates = 0 then Inr (NaN, NaN)
           else
             let entry_date = hd possible_entry_dates
             in case loc_close df entry_date of
                  Inl e \<Rightarrow> Inl e
                | Inr price_entry \<Rightarrow>
                   (let target = signal_date + horizon_days;
                        possible_future_dates = filter (\<lambda>d. d \<ge> target) dates_sorted
                    in if length possible_future_dates = 0 then Inr (price_entry, NaN)
                       else
                         let future_date = hd possible_future_dates
                         in case loc_close df future_date of
                              Inl e \<Rightarrow> Inl e
                            | Inr price_future \<Rightarrow> Inr (price_entry, price_future)))"

text \<open>Python scalar floats: division raises on a zero divisor.\<close>

definition py_float_truediv :: "pyfloat \<Rightarrow> pyfloat \<Rightarrow> py_error + pyfloat" where
  "py_float_truediv a b = (if b = Fin 0 then Inl ZeroDivisionError else Inr (fdiv a b))"

text \<open>
  A row of the signals frame with the columns the evaluator reads. The columns
  \<open>return_{h}d\<close> are a map from the horizon \<open>h\<close> to the cell; a horizon without a column
  maps to \<open>None\<close>.
\<close>

record signal_row =
  s_symbol :: string
  s_signal_date :: date
  s_tech_decision :: string
  s_macro_category :: string
  s_returns :: "int \<rightharpoonup> pyfloat"

text \<open>The first loop of \<open>compute_forward_returns\<close>: every return column starts as NaN.\<close>

definition init_returns :: "int list \<Rightarrow> signal_row list \<Rightarrow> signal_row list" where
  "init_returns horizons signals =
     map (\<lambda>row. row\<lparr>s_returns := foldl (\<lambda>m h. m(h \<mapsto> NaN)) (s_returns row) horizons\<rparr>) signals"

text \<open>
  The body of the inner loop for one horizon: \<open>None\<close> when the source executes \<open>continue\<close>
  and leaves the cell as it is, \<open>Some ret\<close> when it assigns the return to the cell.
\<close>

definition forward_return :: "price_frame \<Rightarrow> date \<Rightarrow> int \<Rightarrow> py_error + pyfloat option" where
  "forward_return df_price signal_date h =
     (case get_future_price df_price signal_date h of
        Inl e \<Rightarrow> Inl e
      | Inr (price_entry, price_future) \<Rightarrow>
          if isnan price_entry \<or> isnan price_future then Inr None
          else
            case py_float_truediv (fsub price_future price_entry) price_entry of
              Inl e \<Rightarrow> Inl e
            | Inr q \<Rightarrow> Inr (Some (fmul q (Fin 100.0))))"

text \<open>The inner loop over the horizons and the outer loop over the signal rows.\<close>

fun horizons_loop ::
  "price_frame \<Rightarrow> date \<Rightarrow> int list \<Rightarrow> (int \<rightharpoonup> pyfloat) \<Rightarrow> py_error + (int \<rightharpoonup> pyfloat)" where
  "horizons_loop df_price signal_date [] cells = Inr cells"
| "horizons_loop df_price signal_date (h # hs) cells =
     (case forward_return df_price signal_date h of
        Inl e \<Rightarrow> Inl e
      | Inr None \<Rightarrow> horizons_loop df_price signal_date hs cells
      | Inr (Some ret) \<Rightarrow> horizons_loop df_price signal_date hs (cells(h \<mapsto> ret)))"

fun rows_loop ::
  "(string \<rightharpoonup> price_frame) \<Rightarrow> int list \<Rightarrow> signal_row list \<Rightarrow> py_error + signal_row list" where
  "rows_loop prices horizons [] = Inr []"
| "rows_loop prices horizons (row # rest) =
     (case prices (s_symbol row) of
        None \<Rightarrow>
          (case rows_loop prices horizons rest of
             Inl e \<Rightarrow> Inl e
           | Inr out \<Rightarrow> Inr (row # out))
      | Some df_price \<Rightarrow>
          (case horizons_loop df_price (s_signal_date row) horizons (s_returns row) of
             Inl e \<Rightarrow> Inl e
           | Inr cells \<Rightarrow>
              (case rows_loop prices horizons rest of
                 Inl e \<Rightarrow> Inl e
               | Inr out \<Rightarrow> Inr (row\<lparr>s_returns := cells\<rparr> # out))))"

definition compute_forward_returns ::
  "signal_row list \<Rightarrow> (string \<rightharpoonup> price_frame) \<Rightarrow> int list \<Rightarrow> py_error + signal_row list" where
  "compute_forward_returns signals prices horizons =
     rows_loop prices horizons (init_returns horizons signals)"

text \<open>
  \<open>summarize_by_decision\<close> prints, per decision label and horizon, the mean, the median and
  the win rate of the column after \<open>dropna()\<close>, or "no valid data" when nothing is left. The
  model returns the numbers it prints. \<open>fsort\<close> sorts a list of floats without NaN.
\<close>

fun finsort :: "pyfloat \<Rightarrow> pyfloat list \<Rightarrow> pyfloat list" where
  "finsort x [] = [x]"
| "finsort x (y # ys) = (if flt y x then y # finsort x ys else x # y # ys)"

definition fsort :: "pyfloat list \<Rightarrow> pyfloat list" where
  "fsort xs = foldr finsort xs []"

definition series_mean :: "pyfloat list \<Rightarrow> pyfloat" where
  "series_mean xs = fdiv (fsum xs) (Fin (real (length xs)))"

definition series_median :: "pyfloat list \<Rightarrow> pyfloat" where
  "series_median xs =
     (let s = fsort xs; n = length s
      in if n = 0 then NaN
         else if odd n then s ! (n div 2)
         else fdiv (fadd (s ! (n div 2 - 1)) (s ! (n div 2))) (Fin 2))"

record horizon_stats =
  mean_ret :: pyfloat
  median_ret :: pyfloat
  winrate :: pyfloat
  n_valid :: nat

definition summarize_column :: "pyfloat list \<Rightarrow> horizon_stats option" where
  "summarize_column col =
     (let valid = filter (\<lambda>x. \<not> isnan x) col
      in if valid = [] then None
         else Some \<lparr>mean_ret = series_mean valid,
                    median_ret = series_median valid,
                    winrate = fmul (series_mean (map (\<lambda>x. if fgt x (Fin 0) then Fin 1 else Fin 0) valid))
                                (Fin 100.0),
                    n_valid = length valid\<rparr>)"

text \<open>Reading the column \<open>return_{h}d\<close> of a frame raises KeyError when it is absent.\<close>

fun column :: "signal_row list \<Rightarrow> int \<Rightarrow> py_error + pyfloat list" where
  "column [] h = Inr []"
| "column (r # rs) h =
     (case s_returns r h of
        None \<Rightarrow> Inl KeyError
      | Some v \<Rightarrow> (case column rs h of Inl e \<Rightarrow> Inl e | Inr vs \<Rightarrow> Inr (v # vs)))"

fun horizons_summary ::
  "signal_row list \<Rightarrow> int list \<Rightarrow> py_error + (int \<times> horizon_stats option) list" where
  "horizons_summary df_dec [] = Inr []"
| "horizons_summary df_dec (h # hs) =
     (case column df_dec h of
        Inl e \<Rightarrow> Inl e
      | Inr col \<Rightarrow>
         (case horizons_summary df_dec hs of
            Inl e \<Rightarrow> Inl e
          | Inr rest \<Rightarrow> Inr ((h, summarize_column col) # rest)))"

fun decisions_loop ::
  "signal_row list \<Rightarrow> int list \<Rightarrow> string list
     \<Rightarrow> py_error + (string \<times> nat \<times> (int \<times> horizon_stats option) list) list" where
  "decisions_loop signals horizons [] = Inr []"
| "decisions_loop signals horizons (dec # decs) =
     (let df_dec = filter (\<lambda>r. s_tech_decision r = dec) signals;
          n_signals = length df_dec
      in if n_signals = 0 then decisions_loop signals horizons decs
         else
           case horizons_summary df_dec horizons of
             Inl e \<Rightarrow> Inl e
           | Inr stats \<Rightarrow>
              (case decisions_loop signals horizons decs of
                 Inl e \<Rightarrow> Inl e
               | Inr rest \<Rightarrow> Inr ((dec, n_signals, stats) # rest)))"

definition summarize_by_decision ::
  "signal_row list \<Rightarrow> int list
     \<Rightarrow> py_error + (string \<times> nat \<times> (int \<times> horizon_stats option) list) list" where
  "summarize_by_decision signals horizons =
     (if signals = [] then Inr []
      else decisions_loop signals horizons (sort (remdups (map s_tech_decision signals))))"

text \<open>
  The specification's words: the first available bar on or after a date is a row of the
  frame on or after that date with no row between the date and it; no such bar exists when
  every row is before the date.
\<close>

definition first_bar_on_or_after :: "price_frame \<Rightarrow> date \<Rightarrow> date \<times> real \<Rightarrow> bool" where
  "first_bar_on_or_after df t row =
     (row \<in> set df \<and> t \<le> fst row \<and> (\<forall>r \<in> set df. t \<le> fst r \<longrightarrow> fst row \<le> fst r))"

definition no_bar_on_or_after :: "price_frame \<Rightarrow> date \<Rightarrow> bool" where
  "no_bar_on_or_after df t = (\<forall>r \<in> set df. fst r < t)"

text \<open>A sample price frame with day 103 missing, and two signals on it.\<close>

definition example_prices :: price_frame where
  "example_prices = [(100, 50), (101, 51), (102, 52), (104, 55), (105, 54)]"


definition example_signals :: "signal_row list" where
  "example_signals =
     [\<lparr>s_symbol = ''BTC-USD'', s_signal_date = 100, s_tech_decision = ''BUY'',
       s_macro_category = ''CRYPTO'', s_returns = Map.empty\<rparr>,
      \<lparr>s_symbol = ''BTC-USD'', s_signal_date = 102, s_tech_decision = ''BUY'',
       s_macro_category = ''CRYPTO'', s_returns = Map.empty\<rparr>]"

definition example_price_map :: "string \<rightharpoonup> price_frame" where
  "example_price_map = [''BTC-USD'' \<mapsto> example_prices]"

section \<open>Theorems\<close>

lemma decision_rank_from_score:
  "decision_rank (decision_from_score s) =
     Some (if s \<ge> 6 then 2 else if s \<ge> 3 then 1 else if s \<le> -6 then -2
           else if s \<le> -3 then -1 else 0)"
  by (simp add: decision_rank_def decision_from_score_def)

text \<open>
  Claim C1. \<open>decision_from_score\<close> is a total function of the integer score alone:
  STRONG BUY from 6 upwards, BUY on 3..5, STRONG SELL up to -6, SELL on -5..-3 and
  HOLD / WAIT on -2..2. Every result is one of the five ranked labels, the rank never
  decreases when the score grows, and the five sample scores 6, 5, 0, -3, -7 give
  STRONG BUY, BUY, HOLD / WAIT, SELL, STRONG SELL.
\<close>

theorem decision_from_score_spec:
  "decision_from_score score =
     (if score \<ge> 6 then STRONG_BUY
      else if 3 \<le> score \<and> score \<le> 5 then BUY
      else if score \<le> -6 then STRONG_SELL
      else if -6 < score \<and> score \<le> -3 then SELL
      else HOLD_WAIT)
   \<and> decision_rank (decision_from_score score) \<noteq> None
   \<and> (\<forall>s t. s \<le> t \<longrightarrow>
          the (decision_rank (decision_from_score s)) \<le> the (decision_rank (decision_from_score t)))
   \<and> decision_from_score 6 = STRONG_BUY
   \<and> decision_from_score 5 = BUY
   \<and> decision_from_score 0 = HOLD_WAIT
   \<and> decision_from_score (-3) = SELL
   \<and> decision_from_score (-7) = STRONG_SELL"
proof -
  have shape: "decision_from_score score =
     (if score \<ge> 6 then STRONG_BUY
      else if 3 \<le> score \<and> score \<le> 5 then BUY
      else if score \<le> -6 then STRONG_SELL
      else if -6 < score \<and> score \<le> -3 then SELL
      else HOLD_WAIT)"
    by (simp add: decision_from_score_def STRONG_BUY_def BUY_def STRONG_SELL_def SELL_def
        HOLD_WAIT_def)
  have ranked: "decision_rank (decision_from_score score) \<noteq> None"
    by (simp add: decision_rank_from_score)
  have mono: "\<forall>s t. s \<le> t \<longrightarrow>
      the (decision_rank (decision_from_score s)) \<le> the (decision_rank (decision_from_score t))"
    by (simp add: decision_rank_from_score)
  have samples: "decision_from_score 6 = STRONG_BUY" "decision_from_score 5 = BUY"
    "decision_from_score 0 = HOLD_WAIT" "decision_from_score (-3) = SELL"
    "decision_from_score (-7) = STRONG_SELL"
    by (simp_all add: decision_from_score_def STRONG_BUY_def BUY_def STRONG_SELL_def SELL_def
        HOLD_WAIT_def)
  from shape ranked mono samples show ?thesis by blast
qed

theorem decision_from_score_spec_witness:
  "(4::int) \<le> 7
   \<and> the (decision_rank (decision_from_score 4)) \<le> the (decision_rank (decision_from_score 7))
   \<and> decision_from_score 4 = ''BUY'' \<and> decision_from_score 7 = ''STRONG BUY''"
proof -
  have le: "(4::int) \<le> 7" by simp
  from decision_from_score_spec [of 0] have
    "\<forall>s t. s \<le> t \<longrightarrow>
      the (decision_rank (decision_from_score s)) \<le> the (decision_rank (decision_from_score t))"
    by blast
  with le have "the (decision_rank (decision_from_score 4)) \<le> the (decision_rank (decision_from_score 7))"
    by blast
  then show ?thesis by (simp add: decision_from_score_def)
qed

lemma if_pair3_down:
  "(if c1 then (s - d, r @ x) else if c2 then (s + d, r @ y) else (s, r @ z)) =
   (s + (if c1 then - d else if c2 then d else (0::int)), r @ (if c1 then x else if c2 then y else z))"
  by simp

lemma if_pair3_up:
  "(if c1 then (s + d, r @ x) else if c2 then (s - d, r @ y) else (s, r @ z)) =
   (s + (if c1 then d else if c2 then - d else (0::int)), r @ (if c1 then x else if c2 then y else z))"
  by simp

lemma if_pair3_opt:
  "(if c1 then (s + d, r @ x) else if c2 then (s - d, r @ y) else (s, r)) =
   (s + (if c1 then d else if c2 then - d else (0::int)), r @ (if c1 then x else if c2 then y else []))"
  by simp

lemma if_pair2:
  "(if c then (s + d, r @ x) else (s - d, r @ y)) =
   (s + (if c then d else - (d::int)), r @ (if c then x else y))"
  by simp

lemma if_app3:
  "(if c1 then r @ x else if c2 then r @ y else r @ z) = r @ (if c1 then x else if c2 then y else z)"
  by simp

lemma if_app2:
  "(if c then r @ x else r @ y) = r @ (if c then x else y)"
  by simp

lemma fst_if3: "fst (if c1 then (a, x) else if c2 then (b, y) else (c, z)) =
   (if c1 then a else if c2 then b else c)"
  by simp

lemma snd_if3: "snd (if c1 then (a, x) else if c2 then (b, y) else (c, z)) =
   (if c1 then x else if c2 then y else z)"
  by simp

lemma fst_if2: "fst (if c then (a, x) else (b, y)) = (if c then a else b)"
  by simp

lemma snd_if2: "snd (if c then (a, x) else (b, y)) = (if c then x else y)"
  by simp

lemma score_body:
  "ind_df \<noteq> [] \<Longrightarrow> score_technical_indicators fmt ind_df =
     Inr (\<Sum>f\<leftarrow>rules. fst (f fmt (last ind_df)), concat (map (\<lambda>f. snd (f fmt (last ind_df))) rules))"
  unfolding score_technical_indicators_def rules_def
  apply (simp only: if_pair3_down if_pair3_up if_pair3_opt if_pair2 if_app3 if_app2)
  apply (simp only: Let_def prod.case)
  apply (simp only: rule_rsi_def rule_short_trend_def rule_long_trend_def rule_macd_def
      rule_bollinger_def rule_adx_def rule_ichimoku_def rule_kijun_def
      fst_if3 snd_if3 fst_if2 snd_if2 fst_conv snd_conv list.map sum_list.Cons sum_list.Nil
      concat.simps if_False)
  apply (simp split del: if_split cong: if_cong)
  done

lemma sum_list_perm:
  "mset rs = mset qs \<Longrightarrow> (\<Sum>f\<leftarrow>rs. (g f :: int)) = (\<Sum>f\<leftarrow>qs. g f)"
proof -
  assume "mset rs = mset qs"
  then have "sum_mset (image_mset g (mset rs)) = sum_mset (image_mset g (mset qs))" by simp
  then show ?thesis by (simp only: mset_map [symmetric] sum_mset_sum_list)
qed

text \<open>
  Claim C2. On a non-empty indicator frame, \<open>score_technical_indicators\<close> returns the sum of
  the deltas of the six scoring rules (RSI, short trend, long trend, MACD, Bollinger,
  Ichimoku cloud) evaluated on the last row, and the reasons of all eight rules in the
  source's order. The ADX and Kijun rules have delta 0 and always give a reason. Summing
  the rule deltas in any other order gives the same score.
\<close>

theorem score_is_sum_of_rule_deltas:
  assumes "ind_df \<noteq> []"
  shows "score_technical_indicators fmt ind_df =
           Inr (fst (rule_rsi fmt (last ind_df)) + fst (rule_short_trend fmt (last ind_df))
                + fst (rule_long_trend fmt (last ind_df)) + fst (rule_macd fmt (last ind_df))
                + fst (rule_bollinger fmt (last ind_df)) + fst (rule_ichimoku fmt (last ind_df)),
                concat (map (\<lambda>f. snd (f fmt (last ind_df))) rules))
    \<and> (fst (rule_adx fmt (last ind_df)) = 0 \<and> snd (rule_adx fmt (last ind_df)) \<noteq> [])
    \<and> (fst (rule_kijun fmt (last ind_df)) = 0 \<and> snd (rule_kijun fmt (last ind_df)) \<noteq> [])
    \<and> (\<forall>rs. mset rs = mset rules \<longrightarrow>
           score_technical_indicators fmt ind_df =
             Inr (\<Sum>f\<leftarrow>rs. fst (f fmt (last ind_df)),
                  concat (map (\<lambda>f. snd (f fmt (last ind_df))) rules)))"
proof (intro conjI allI impI)
  show adx: "fst (rule_adx fmt (last ind_df)) = 0"
    by (simp add: rule_adx_def)
  show "snd (rule_adx fmt (last ind_df)) \<noteq> []"
    by (simp add: rule_adx_def)
  show kijun: "fst (rule_kijun fmt (last ind_df)) = 0"
    by (simp add: rule_kijun_def)
  show "snd (rule_kijun fmt (last ind_df)) \<noteq> []"
    by (simp add: rule_kijun_def)
  have body: "score_technical_indicators fmt ind_df =
     Inr (\<Sum>f\<leftarrow>rules. fst (f fmt (last ind_df)),
          concat (map (\<lambda>f. snd (f fmt (last ind_df))) rules))"
    using assms by (rule score_body)
  have six: "(\<Sum>f\<leftarrow>rules. fst (f fmt (last ind_df))) =
      fst (rule_rsi fmt (last ind_df)) + fst (rule_short_trend fmt (last ind_df))
      + fst (rule_long_trend fmt (last ind_df)) + fst (rule_macd fmt (last ind_df))
      + fst (rule_bollinger fmt (last ind_df)) + fst (rule_ichimoku fmt (last ind_df))"
    unfolding rules_def by (simp only: list.map sum_list.Cons sum_list.Nil adx kijun add_0_right)
  show "score_technical_indicators fmt ind_df =
           Inr (fst (rule_rsi fmt (last ind_df)) + fst (rule_short_trend fmt (last ind_df))
                + fst (rule_long_trend fmt (last ind_df)) + fst (rule_macd fmt (last ind_df))
                + fst (rule_bollinger fmt (last ind_df)) + fst (rule_ichimoku fmt (last ind_df)),
                concat (map (\<lambda>f. snd (f fmt (last ind_df))) rules))"
    by (simp only: body six)
  fix rs :: "rule list"
  assume "mset rs = mset rules"
  then have "(\<Sum>f\<leftarrow>rs. fst (f fmt (last ind_df))) = (\<Sum>f\<leftarrow>rules. fst (f fmt (last ind_df)))"
    by (rule sum_list_perm)
  then show "score_technical_indicators fmt ind_df =
             Inr (\<Sum>f\<leftarrow>rs. fst (f fmt (last ind_df)),
                  concat (map (\<lambda>f. snd (f fmt (last ind_df))) rules))"
    by (simp only: body)
qed

lemma example_row_deltas:
  "fst (rule_rsi fmt example_row) = -1" "fst (rule_short_trend fmt example_row) = 1"
  "fst (rule_long_trend fmt example_row) = 2" "fst (rule_macd fmt example_row) = 1"
  "fst (rule_bollinger fmt example_row) = 0" "fst (rule_adx fmt example_row) = 0"
  "fst (rule_ichimoku fmt example_row) = 1" "fst (rule_kijun fmt example_row) = 0"
  by (simp_all add: rule_rsi_def rule_short_trend_def rule_long_trend_def rule_macd_def
      rule_bollinger_def rule_adx_def rule_ichimoku_def rule_kijun_def example_row_def
      fgt_def py_max_def py_min_def)

theorem score_is_sum_of_rule_deltas_witness:
  "[example_row] \<noteq> [] \<and> mset (rev rules) = mset rules
   \<and> (\<exists>reasons. score_technical_indicators (\<lambda>x. ''?'') [example_row] = Inr (4, reasons))"
proof -
  have ne: "[example_row] \<noteq> []" by simp
  have perm: "mset (rev rules) = mset rules" by simp
  have val: "(\<Sum>f\<leftarrow>rev rules. fst (f (\<lambda>x. ''?'') (last [example_row]))) = 4"
    by (simp add: rules_def example_row_deltas)
  from score_is_sum_of_rule_deltas [OF ne, of "\<lambda>x. ''?''"] have
    "\<forall>rs. mset rs = mset rules \<longrightarrow>
           score_technical_indicators (\<lambda>x. ''?'') [example_row] =
             Inr (\<Sum>f\<leftarrow>rs. fst (f (\<lambda>x. ''?'') (last [example_row])),
                  concat (map (\<lambda>f. snd (f (\<lambda>x. ''?'') (last [example_row]))) rules))"
    by (elim conjE)
  then have "mset (rev rules) = mset rules \<longrightarrow>
           score_technical_indicators (\<lambda>x. ''?'') [example_row] =
             Inr (\<Sum>f\<leftarrow>rev rules. fst (f (\<lambda>x. ''?'') (last [example_row])),
                  concat (map (\<lambda>f. snd (f (\<lambda>x. ''?'') (last [example_row]))) rules))"
    by (rule spec)
  from this perm have "score_technical_indicators (\<lambda>x. ''?'') [example_row] =
             Inr (\<Sum>f\<leftarrow>rev rules. fst (f (\<lambda>x. ''?'') (last [example_row])),
                  concat (map (\<lambda>f. snd (f (\<lambda>x. ''?'') (last [example_row]))) rules))"
    by (rule mp)
  then have "\<exists>reasons. score_technical_indicators (\<lambda>x. ''?'') [example_row] = Inr (4, reasons)"
    by (simp only: val) (rule exI, rule refl)
  with ne perm show ?thesis by (intro conjI)
qed

lemma build_order_cases:
  "build_order_from_analysis cfg now lg symbol name category ta cs =
    (let price = ind_last_price (ta_indicators ta);
         atr = ind_atr14 (ta_indicators ta);
         dist = atr * category_multiplier category;
         side = (if passes_long ta cs then ''LONG'' else ''SHORT'');
         sl = (if passes_long ta cs then price - dist else price + dist);
         tp = (if passes_long ta cs then price + dist * 2 else price - dist * 2);
         risk = ACCOUNT_SIZE cfg * (RISK_PER_TRADE_PCT cfg / 100);
         ord = \<lparr>o_timestamp = now, o_symbol = symbol, o_name = name,
                 o_category = category, o_side = side, o_entry = price,
                 o_stop_loss = sl, o_take_profit = tp,
                 o_reward_risk = 2, o_technical_score = ta_score ta,
                 o_technical_decision = ta_decision ta,
                 o_composite_score = cs, o_atr14 = atr,
                 o_position_size = risk / \<bar>price - sl\<bar>, o_notional = risk / \<bar>price - sl\<bar> * price,
                 o_risk_amount = risk,
                 o_reason_short = (if ta_reasons ta \<noteq> [] then hd (ta_reasons ta)
                          else ''Decisione tecnica: '' @ ta_decision ta)\<rparr>
     in if atr \<le> 0 \<or> price \<le> 0 \<or> (\<not> passes_long ta cs \<and> \<not> passes_short ta cs)
           \<or> sl \<le> 0 \<or> tp \<le> 0
        then Inr (None, lg) else Inr (Some ord, lg @ [ord]))"
proof -
  define m where "m = category_multiplier category"
  have mpos: "0 < m" by (simp add: m_def category_multiplier_def)
  have fold_m: "(if category = ''CRYPTO'' then 2.5
                  else if category = ''STOCK'' then 1.8
                  else (1.5::real)) = m"
    by (simp add: m_def category_multiplier_def)
  show ?thesis
  proof (cases "ind_atr14 (ta_indicators ta) \<le> 0 \<or> ind_last_price (ta_indicators ta) \<le> 0")
    case True
    then show ?thesis
      unfolding build_order_from_analysis_def Let_def by auto
  next
    case pos: False
    define d where "d = ind_atr14 (ta_indicators ta) * m"
    from pos have apos: "0 < d"
      using mpos by (simp add: d_def mult_pos_pos)
    show ?thesis
    proof (cases "passes_long ta cs")
      case True
      with pos apos show ?thesis
        unfolding build_order_from_analysis_def Let_def fold_m m_def [symmetric] d_def [symmetric]
        by (simp add: passes_long_def py_truediv_def log_order_def)
    next
      case nl: False
      show ?thesis
      proof (cases "passes_short ta cs")
        case True
        with nl pos apos show ?thesis
          unfolding build_order_from_analysis_def Let_def fold_m m_def [symmetric] d_def [symmetric]
          by (simp add: passes_long_def passes_short_def py_truediv_def log_order_def)
      next
        case False
        with nl pos show ?thesis
          unfolding build_order_from_analysis_def Let_def
          by (simp add: passes_long_def passes_short_def cong: conj_cong)
      qed
    qed
  qed
qed

lemma category_multiplier_pos: "0 < category_multiplier category"
  by (simp add: category_multiplier_def)

text \<open>
  Claim C3. Every proposal returned by \<open>build_order_from_analysis\<close> comes from a positive
  ATR and price and a signal that passes the threshold; its stop distance is ATR times the
  category multiplier (2.5 CRYPTO, 1.8 STOCK, 1.5 otherwise); a LONG has stop = entry - distance
  and target = entry + 2 * distance, a SHORT the mirror image; the position size is
  (account size * risk percent / 100) / |entry - stop| and the notional is size * entry.
  With CRYPTO, entry 100, ATR 2, a LONG signal, account 10000 and risk 1 percent the proposal
  has stop 95, target 110, risk amount 100, size 20 and notional 2000.
\<close>

theorem build_order_levels_and_size:
  "(build_order_from_analysis cfg now lg symbol name category ta cs = Inr (Some ord, lg') \<longrightarrow>
      0 < ind_atr14 (ta_indicators ta) \<and> 0 < ind_last_price (ta_indicators ta)
      \<and> (passes_long ta cs \<or> passes_short ta cs)
      \<and> o_side ord = (if passes_long ta cs then ''LONG'' else ''SHORT'')
      \<and> o_entry ord = ind_last_price (ta_indicators ta)
      \<and> (o_side ord = ''LONG'' \<longrightarrow>
            o_stop_loss ord = o_entry ord - ind_atr14 (ta_indicators ta) * category_multiplier category
          \<and> o_take_profit ord =
              o_entry ord + ind_atr14 (ta_indicators ta) * category_multiplier category * 2.0)
      \<and> (o_side ord = ''SHORT'' \<longrightarrow>
            o_stop_loss ord = o_entry ord + ind_atr14 (ta_indicators ta) * category_multiplier category
          \<and> o_take_profit ord =
              o_entry ord - ind_atr14 (ta_indicators ta) * category_multiplier category * 2.0)
      \<and> o_risk_amount ord = ACCOUNT_SIZE cfg * RISK_PER_TRADE_PCT cfg / 100
      \<and> o_position_size ord =
            (ACCOUNT_SIZE cfg * RISK_PER_TRADE_PCT cfg / 100) / \<bar>o_entry ord - o_stop_loss ord\<bar>
      \<and> o_notional ord = o_position_size ord * o_entry ord)
   \<and> category_multiplier category =
        (if category = ''CRYPTO'' then 2.5 else if category = ''STOCK'' then 1.8 else 1.5)
   \<and> (4 \<le> ta_score ta \<and> 4 \<le> cs \<and> ind_last_price (ta_indicators ta) = 100
        \<and> ind_atr14 (ta_indicators ta) = 2 \<longrightarrow>
       (\<exists>ord. build_order_from_analysis config_py now lg symbol name ''CRYPTO'' ta cs =
                 Inr (Some ord, lg @ [ord])
          \<and> o_side ord = ''LONG'' \<and> o_entry ord = 100 \<and> o_stop_loss ord = 95
          \<and> o_take_profit ord = 110 \<and> o_risk_amount ord = 100 \<and> o_position_size ord = 20
          \<and> o_notional ord = 2000))"
proof (intro conjI impI)
  assume ret: "build_order_from_analysis cfg now lg symbol name category ta cs = Inr (Some ord, lg')"
  let ?atr = "ind_atr14 (ta_indicators ta)"
  let ?price = "ind_last_price (ta_indicators ta)"
  let ?d = "?atr * category_multiplier category"
  from ret have guards: "\<not> (?atr \<le> 0 \<or> ?price \<le> 0 \<or> (\<not> passes_long ta cs \<and> \<not> passes_short ta cs)
           \<or> (if passes_long ta cs then ?price - ?d else ?price + ?d) \<le> 0
           \<or> (if passes_long ta cs then ?price + ?d * 2 else ?price - ?d * 2) \<le> 0)"
    unfolding build_order_cases Let_def by (auto split: if_splits)
  from guards show "0 < ?atr" "0 < ?price" "passes_long ta cs \<or> passes_short ta cs"
    by auto
  from ret guards have ord: "ord = \<lparr>o_timestamp = now, o_symbol = symbol, o_name = name,
                 o_category = category,
                 o_side = (if passes_long ta cs then ''LONG'' else ''SHORT''), o_entry = ?price,
                 o_stop_loss = (if passes_long ta cs then ?price - ?d else ?price + ?d),
                 o_take_profit = (if passes_long ta cs then ?price + ?d * 2 else ?price - ?d * 2),
                 o_reward_risk = 2, o_technical_score = ta_score ta,
                 o_technical_decision = ta_decision ta,
                 o_composite_score = cs, o_atr14 = ?atr,
                 o_position_size = ACCOUNT_SIZE cfg * (RISK_PER_TRADE_PCT cfg / 100) /
                    \<bar>?price - (if passes_long ta cs then ?price - ?d else ?price + ?d)\<bar>,
                 o_notional = ACCOUNT_SIZE cfg * (RISK_PER_TRADE_PCT cfg / 100) /
                    \<bar>?price - (if passes_long ta cs then ?price - ?d else ?price + ?d)\<bar> * ?price,
                 o_risk_amount = ACCOUNT_SIZE cfg * (RISK_PER_TRADE_PCT cfg / 100),
                 o_reason_short = (if ta_reasons ta \<noteq> [] then hd (ta_reasons ta)
                          else ''Decisione tecnica: '' @ ta_decision ta)\<rparr>"
    unfolding build_order_cases Let_def by (simp split: if_splits)
  show "o_side ord = (if passes_long ta cs then ''LONG'' else ''SHORT'')"
    by (simp add: ord)
  show "o_entry ord = ?price" by (simp add: ord)
  show "o_risk_amount ord = ACCOUNT_SIZE cfg * RISK_PER_TRADE_PCT cfg / 100" by (simp add: ord)
  show "o_position_size ord =
            (ACCOUNT_SIZE cfg * RISK_PER_TRADE_PCT cfg / 100) / \<bar>o_entry ord - o_stop_loss ord\<bar>"
    by (simp add: ord)
  show "o_notional ord = o_position_size ord * o_entry ord" by (simp add: ord)
  { assume "o_side ord = ''LONG''"
    then have pl: "passes_long ta cs" by (simp add: ord split: if_splits)
    show "o_stop_loss ord = o_entry ord - ?d" by (simp add: ord pl)
    show "o_take_profit ord = o_entry ord + ?d * 2.0" by (simp add: ord pl) }
  { assume "o_side ord = ''SHORT''"
    then have pl: "\<not> passes_long ta cs" by (simp add: ord split: if_splits)
    show "o_stop_loss ord = o_entry ord + ?d" by (simp add: ord pl)
    show "o_take_profit ord = o_entry ord - ?d * 2.0" by (simp add: ord pl) }
next
  show "category_multiplier category =
        (if category = ''CRYPTO'' then 2.5 else if category = ''STOCK'' then 1.8 else 1.5)"
    by (simp add: category_multiplier_def)
next
  assume ex: "4 \<le> ta_score ta \<and> 4 \<le> cs \<and> ind_last_price (ta_indicators ta) = 100
        \<and> ind_atr14 (ta_indicators ta) = 2"
  then have pl: "passes_long ta cs" by (simp add: passes_long_def)
  have cm: "category_multiplier ''CRYPTO'' = 5 / 2" by (simp add: category_multiplier_def)
  show "\<exists>ord. build_order_from_analysis config_py now lg symbol name ''CRYPTO'' ta cs =
                 Inr (Some ord, lg @ [ord])
          \<and> o_side ord = ''LONG'' \<and> o_entry ord = 100 \<and> o_stop_loss ord = 95
          \<and> o_take_profit ord = 110 \<and> o_risk_amount ord = 100 \<and> o_position_size ord = 20
          \<and> o_notional ord = 2000"
    unfolding build_order_cases Let_def using ex pl
    by (simp add: cm config_py_def)
qed

theorem build_order_levels_and_size_witness:
  "\<exists>ord. build_order_from_analysis config_py ''2024-01-01T00:00:00'' [] ''BTC-USD'' ''Bitcoin''
            ''CRYPTO'' example_analysis 6 = Inr (Some ord, [ord])
     \<and> 0 < ind_atr14 (ta_indicators example_analysis)
     \<and> o_side ord = ''LONG'' \<and> o_entry ord = 100 \<and> o_stop_loss ord = 95 \<and> o_take_profit ord = 110
     \<and> o_risk_amount ord = 100 \<and> o_position_size ord = 20 \<and> o_notional ord = 2000
     \<and> o_position_size ord = (10000 * 1 / 100) / \<bar>o_entry ord - o_stop_loss ord\<bar>"
proof -
  have pre: "4 \<le> ta_score example_analysis \<and> 4 \<le> (6::real)
      \<and> ind_last_price (ta_indicators example_analysis) = 100
      \<and> ind_atr14 (ta_indicators example_analysis) = 2"
    by (simp add: example_analysis_def)
  from build_order_levels_and_size [of config_py "''2024-01-01T00:00:00''" "[]" "''BTC-USD''"
      "''Bitcoin''" "''CRYPTO''" example_analysis 6] pre
  obtain ord where ord: "build_order_from_analysis config_py ''2024-01-01T00:00:00'' [] ''BTC-USD''
      ''Bitcoin'' ''CRYPTO'' example_analysis 6 = Inr (Some ord, [] @ [ord])"
    "o_side ord = ''LONG''" "o_entry ord = 100" "o_stop_loss ord = 95" "o_take_profit ord = 110"
    "o_risk_amount ord = 100" "o_position_size ord = 20" "o_notional ord = 2000"
    by blast
  from ord(1) have ret: "build_order_from_analysis config_py ''2024-01-01T00:00:00'' [] ''BTC-USD''
      ''Bitcoin'' ''CRYPTO'' example_analysis 6 = Inr (Some ord, [ord])" by simp
  from build_order_levels_and_size [of config_py "''2024-01-01T00:00:00''" "[]" "''BTC-USD''"
      "''Bitcoin''" "''CRYPTO''" example_analysis 6 ord "[ord]"] ret
  have "0 < ind_atr14 (ta_indicators example_analysis)"
    and "o_position_size ord =
            (ACCOUNT_SIZE config_py * RISK_PER_TRADE_PCT config_py / 100) / \<bar>o_entry ord - o_stop_loss ord\<bar>"
    by blast+
  with ret ord(2-) show ?thesis by (auto simp: config_py_def)
qed

text \<open>
  Claim C4. \<open>build_order_from_analysis\<close> never raises: it always returns a value. It returns
  \<open>None\<close> and leaves the order log unchanged when the scores do not both reach the threshold
  with the same sign (LONG needs score >= 4 and composite >= 4, SHORT needs score <= -4 and
  composite <= -4), when ATR <= 0, when the last price <= 0, and when the computed stop or
  target is <= 0; in particular ATR = 0 gives no proposal whatever the scores.
\<close>

theorem build_order_declines_without_raising:
  "(\<exists>r. build_order_from_analysis cfg now lg symbol name category ta cs = Inr r)
   \<and> (\<not> passes_long ta cs \<and> \<not> passes_short ta cs \<longrightarrow>
        build_order_from_analysis cfg now lg symbol name category ta cs = Inr (None, lg))
   \<and> (ind_atr14 (ta_indicators ta) \<le> 0 \<longrightarrow>
        build_order_from_analysis cfg now lg symbol name category ta cs = Inr (None, lg))
   \<and> (ind_last_price (ta_indicators ta) \<le> 0 \<longrightarrow>
        build_order_from_analysis cfg now lg symbol name category ta cs = Inr (None, lg))
   \<and> (passes_long ta cs \<and>
        (ind_last_price (ta_indicators ta)
            - ind_atr14 (ta_indicators ta) * category_multiplier category \<le> 0
         \<or> ind_last_price (ta_indicators ta)
            + ind_atr14 (ta_indicators ta) * category_multiplier category * 2.0 \<le> 0) \<longrightarrow>
        build_order_from_analysis cfg now lg symbol name category ta cs = Inr (None, lg))
   \<and> (\<not> passes_long ta cs \<and> passes_short ta cs \<and>
        (ind_last_price (ta_indicators ta)
            + ind_atr14 (ta_indicators ta) * category_multiplier category \<le> 0
         \<or> ind_last_price (ta_indicators ta)
            - ind_atr14 (ta_indicators ta) * category_multiplier category * 2.0 \<le> 0) \<longrightarrow>
        build_order_from_analysis cfg now lg symbol name category ta cs = Inr (None, lg))
   \<and> (ind_atr14 (ta_indicators ta) = 0 \<longrightarrow>
        build_order_from_analysis cfg now lg symbol name category ta cs = Inr (None, lg))
   \<and> passes_long ta cs = (ta_score ta \<ge> 4 \<and> cs \<ge> 4)
   \<and> passes_short ta cs = (ta_score ta \<le> -4 \<and> cs \<le> -4)"
  unfolding build_order_cases Let_def
  by (simp add: passes_long_def passes_short_def)

theorem build_order_declines_without_raising_witness:
  "build_order_from_analysis config_py ''t'' [] ''BTC-USD'' ''Bitcoin'' ''CRYPTO''
      (analysis_with 6 100 0) 6 = Inr (None, [])
   \<and> build_order_from_analysis config_py ''t'' [] ''BTC-USD'' ''Bitcoin'' ''CRYPTO''
      (analysis_with 3 100 2) 6 = Inr (None, [])
   \<and> build_order_from_analysis config_py ''t'' [] ''BTC-USD'' ''Bitcoin'' ''CRYPTO''
      (analysis_with 6 0 2) 6 = Inr (None, [])
   \<and> build_order_from_analysis config_py ''t'' [] ''BTC-USD'' ''Bitcoin'' ''CRYPTO''
      (analysis_with 6 1 2) 6 = Inr (None, [])
   \<and> build_order_from_analysis config_py ''t'' [] ''BTC-USD'' ''Bitcoin'' ''CRYPTO''
      (analysis_with (-6) 1 2) (-6) = Inr (None, [])"
proof (intro conjI)
  note inst = build_order_declines_without_raising [of config_py "''t''" "[]" "''BTC-USD''"
      "''Bitcoin''" "''CRYPTO''"]
  have "ind_atr14 (ta_indicators (analysis_with 6 100 0)) = 0"
    by (simp add: analysis_with_def)
  with inst [of "analysis_with 6 100 0" 6]
  show "build_order_from_analysis config_py ''t'' [] ''BTC-USD'' ''Bitcoin'' ''CRYPTO''
      (analysis_with 6 100 0) 6 = Inr (None, [])" by blast
  have "\<not> passes_long (analysis_with 3 100 2) 6 \<and> \<not> passes_short (analysis_with 3 100 2) 6"
    by (simp add: analysis_with_def passes_long_def passes_short_def)
  with inst [of "analysis_with 3 100 2" 6]
  show "build_order_from_analysis config_py ''t'' [] ''BTC-USD'' ''Bitcoin'' ''CRYPTO''
      (analysis_with 3 100 2) 6 = Inr (None, [])" by blast
  have "ind_last_price (ta_indicators (analysis_with 6 0 2)) \<le> 0"
    by (simp add: analysis_with_def)
  with inst [of "analysis_with 6 0 2" 6]
  show "build_order_from_analysis config_py ''t'' [] ''BTC-USD'' ''Bitcoin'' ''CRYPTO''
      (analysis_with 6 0 2) 6 = Inr (None, [])" by blast
  have "passes_long (analysis_with 6 1 2) 6 \<and>
        (ind_last_price (ta_indicators (analysis_with 6 1 2))
            - ind_atr14 (ta_indicators (analysis_with 6 1 2)) * category_multiplier ''CRYPTO'' \<le> 0
         \<or> ind_last_price (ta_indicators (analysis_with 6 1 2))
            + ind_atr14 (ta_indicators (analysis_with 6 1 2)) * category_multiplier ''CRYPTO'' * 2.0 \<le> 0)"
    by (simp add: analysis_with_def passes_long_def category_multiplier_def)
  with inst [of "analysis_with 6 1 2" 6]
  show "build_order_from_analysis config_py ''t'' [] ''BTC-USD'' ''Bitcoin'' ''CRYPTO''
      (analysis_with 6 1 2) 6 = Inr (None, [])" by blast
  have "\<not> passes_long (analysis_with (-6) 1 2) (-6) \<and> passes_short (analysis_with (-6) 1 2) (-6) \<and>
        (ind_last_price (ta_indicators (analysis_with (-6) 1 2))
            + ind_atr14 (ta_indicators (analysis_with (-6) 1 2)) * category_multiplier ''CRYPTO'' \<le> 0
         \<or> ind_last_price (ta_indicators (analysis_with (-6) 1 2))
            - ind_atr14 (ta_indicators (analysis_with (-6) 1 2)) * category_multiplier ''CRYPTO'' * 2.0 \<le> 0)"
    by (simp add: analysis_with_def passes_long_def passes_short_def category_multiplier_def)
  with inst [of "analysis_with (-6) 1 2" "-6"]
  show "build_order_from_analysis config_py ''t'' [] ''BTC-USD'' ''Bitcoin'' ''CRYPTO''
      (analysis_with (-6) 1 2) (-6) = Inr (None, [])" by blast
qed

lemma insort_key_eq_keys:
  "f x = g x \<Longrightarrow> (\<forall>y \<in> set ys. f y = g y) \<Longrightarrow> insort_key f x ys = insort_key g x ys"
  by (induction ys) auto

lemma set_foldr_insort_key: "set (foldr (insort_key g) xs []) = set xs"
  by (induction xs) (auto simp: set_insort_key)

lemma sort_key_eq_keys:
  "(\<forall>x \<in> set xs. f x = g x) \<Longrightarrow> sort_key f xs = sort_key g xs"
proof (induction xs)
  case Nil
  then show ?case by simp
next
  case (Cons x xs)
  then have ih: "sort_key f xs = sort_key g xs" by simp
  have "insort_key f x (sort_key g xs) = insort_key g x (sort_key g xs)"
    using Cons.prems by (intro insort_key_eq_keys) auto
  with ih show ?case by (simp add: sort_key_def)
qed

lemma analyze_one_score:
  "e_ensemble_score (analyze_one run asset) = real_of_int (e_tech_score (analyze_one run asset))"
  by (simp add: analyze_one_def TECH_WEIGHT_def NEWS_WEIGHT_def Let_def split: sum.splits)

text \<open>
  Claim C10. With \<open>TECH_WEIGHT = 1.0\<close>, \<open>NEWS_WEIGHT = 0.0\<close> and the news score fixed at 0,
  the ensemble score returned by \<open>analyze_one\<close> equals the technical score, whatever news
  score were put into the weighted sum, so the rankings are those by technical score. When
  the technical analysis raises, \<open>analyze_one\<close> still returns an entry, with technical score 0,
  decision N/A and ensemble score 0.
\<close>

theorem analyze_one_ensemble_is_technical:
  "e_ensemble_score (analyze_one run asset) = real_of_int (e_tech_score (analyze_one run asset))
   \<and> e_news_score (analyze_one run asset) = 0
   \<and> (\<forall>news. TECH_WEIGHT * real_of_int (e_tech_score (analyze_one run asset)) + NEWS_WEIGHT * news
          = e_ensemble_score (analyze_one run asset))
   \<and> (\<forall>result. run (a_symbol asset) = Inr result \<longrightarrow>
          e_tech_score (analyze_one run asset) = r_score result
        \<and> e_tech_decision (analyze_one run asset) = r_decision result
        \<and> e_ensemble_score (analyze_one run asset) = real_of_int (r_score result))
   \<and> (\<forall>exn. run (a_symbol asset) = Inl exn \<longrightarrow>
          e_tech_score (analyze_one run asset) = 0
        \<and> e_tech_decision (analyze_one run asset) = ''N/A''
        \<and> e_tech_reasons (analyze_one run asset) = []
        \<and> e_ensemble_score (analyze_one run asset) = 0.0)
   \<and> print_rankings (map (analyze_one run) assets)
        = rankings_by_tech_score (map (analyze_one run) assets)"
proof (intro conjI allI impI)
  show "e_ensemble_score (analyze_one run asset) = real_of_int (e_tech_score (analyze_one run asset))"
    by (rule analyze_one_score)
  show "e_news_score (analyze_one run asset) = 0"
    by (simp add: analyze_one_def Let_def split: sum.splits)
  show "TECH_WEIGHT * real_of_int (e_tech_score (analyze_one run asset)) + NEWS_WEIGHT * news
          = e_ensemble_score (analyze_one run asset)" for news
    by (simp add: analyze_one_score TECH_WEIGHT_def NEWS_WEIGHT_def)
  show "print_rankings (map (analyze_one run) assets)
        = rankings_by_tech_score (map (analyze_one run) assets)"
  proof -
    have key: "\<forall>r \<in> set (filter P (map (analyze_one run) assets)).
        e_ensemble_score r = real_of_int (e_tech_score r)" for P
      by (auto simp: analyze_one_score)
    have "sort_key (\<lambda>r. - e_ensemble_score r) (filter P (map (analyze_one run) assets))
        = sort_key (\<lambda>r. - real_of_int (e_tech_score r)) (filter P (map (analyze_one run) assets))" for P
      using key [of P] by (intro sort_key_eq_keys) simp
    moreover have "sort_key (\<lambda>r. e_ensemble_score r) (filter P (map (analyze_one run) assets))
        = sort_key (\<lambda>r. real_of_int (e_tech_score r)) (filter P (map (analyze_one run) assets))" for P
      using key [of P] by (intro sort_key_eq_keys) simp
    ultimately show ?thesis
      by (simp only: print_rankings_def rankings_by_tech_score_def Let_def)
  qed
next
  fix result assume "run (a_symbol asset) = Inr result"
  then show "e_tech_score (analyze_one run asset) = r_score result"
    "e_tech_decision (analyze_one run asset) = r_decision result"
    "e_ensemble_score (analyze_one run asset) = real_of_int (r_score result)"
    by (simp_all add: analyze_one_def Let_def TECH_WEIGHT_def NEWS_WEIGHT_def)
next
  fix exn assume "run (a_symbol asset) = Inl exn"
  then show "e_tech_score (analyze_one run asset) = 0"
    "e_tech_decision (analyze_one run asset) = ''N/A''"
    "e_tech_reasons (analyze_one run asset) = []"
    "e_ensemble_score (analyze_one run asset) = 0.0"
    by (simp_all add: analyze_one_def Let_def TECH_WEIGHT_def NEWS_WEIGHT_def)
qed

theorem analyze_one_ensemble_is_technical_witness:
  "e_ensemble_score (analyze_one example_agent
       \<lparr>a_symbol = ''BTC-USD'', a_name = Some ''Bitcoin'', a_category = Some ''CRYPTO/MAJOR''\<rparr>) = 5
   \<and> e_tech_decision (analyze_one example_agent
       \<lparr>a_symbol = ''BTC-USD'', a_name = Some ''Bitcoin'', a_category = Some ''CRYPTO/MAJOR''\<rparr>) = ''BUY''
   \<and> e_tech_score (analyze_one example_agent
       \<lparr>a_symbol = ''XYZ'', a_name = None, a_category = None\<rparr>) = 0
   \<and> e_tech_decision (analyze_one example_agent
       \<lparr>a_symbol = ''XYZ'', a_name = None, a_category = None\<rparr>) = ''N/A''
   \<and> e_ensemble_score (analyze_one example_agent
       \<lparr>a_symbol = ''XYZ'', a_name = None, a_category = None\<rparr>) = 0"
proof -
  let ?btc = "\<lparr>a_symbol = ''BTC-USD'', a_name = Some ''Bitcoin'', a_category = Some ''CRYPTO/MAJOR''\<rparr>"
  let ?xyz = "\<lparr>a_symbol = ''XYZ'', a_name = None, a_category = None\<rparr>"
  have ok: "example_agent (a_symbol ?btc) =
      Inr \<lparr>r_score = 5, r_decision = ''BUY'', r_reasons = [''MACD sopra il segnale (momentum rialzista).'']\<rparr>"
    by (simp add: example_agent_def)
  have bad: "example_agent (a_symbol ?xyz) = Inl ''Nessun dato scaricato''"
    by (simp add: example_agent_def)
  from analyze_one_ensemble_is_technical [of example_agent ?btc "[]"] ok
  have a: "e_tech_decision (analyze_one example_agent ?btc) = ''BUY''"
    "e_ensemble_score (analyze_one example_agent ?btc) = 5"
    by auto
  from analyze_one_ensemble_is_technical [of example_agent ?xyz "[]"] bad
  have b: "e_tech_score (analyze_one example_agent ?xyz) = 0"
    "e_tech_decision (analyze_one example_agent ?xyz) = ''N/A''"
    "e_ensemble_score (analyze_one example_agent ?xyz) = 0"
    by auto
  from a b show ?thesis by blast
qed

lemma nn_simps [simp]: "nn NaN" "nn (Fin r) = (0 \<le> r)" "\<not> nn PInf" "\<not> nn NInf"
  by (simp_all add: nn_def)

lemma diff_from_fin:
  "\<forall>x \<in> set (diff_from (Fin p) (map Fin cs)). \<exists>r. x = Fin r"
  by (induction cs arbitrary: p) (simp_all add: fsub_def)

lemma diff_fin_or_nan:
  "\<forall>x \<in> set (diff (map Fin cs)). x = NaN \<or> (\<exists>r. x = Fin r)"
  using diff_from_fin by (cases cs) (auto simp: diff_def)

lemma gain_nn: "x = NaN \<or> (\<exists>r. x = Fin r) \<Longrightarrow> nn (clip_lower (Fin 0) x)"
  by (auto simp: clip_lower_def)

lemma loss_nn: "x = NaN \<or> (\<exists>r. x = Fin r) \<Longrightarrow> nn (fneg (clip_upper (Fin 0) x))"
  by (auto simp: clip_upper_def fgt_def)

lemma foldl_fadd_fin:
  "\<forall>x \<in> set w. \<exists>r. x = Fin r \<and> 0 \<le> r \<Longrightarrow> 0 \<le> a \<Longrightarrow>
   \<exists>s. foldl fadd (Fin a) w = Fin s \<and> 0 \<le> s"
proof (induction w arbitrary: a)
  case Nil
  then show ?case by simp
next
  case (Cons x w)
  then obtain r where x: "x = Fin r" "0 \<le> r" by auto
  from Cons.prems have "\<forall>y \<in> set w. \<exists>r. y = Fin r \<and> 0 \<le> r" by simp
  from Cons.IH [OF this, of "a + r"] Cons.prems(2) x show ?case by simp
qed

lemma mean_window_nn:
  assumes "\<forall>x \<in> set w. nn x" "NaN \<notin> set w"
  shows "nn (fdiv (fsum w) (Fin (real (length w))))"
proof -
  from assms have "\<forall>x \<in> set w. \<exists>r. x = Fin r \<and> 0 \<le> r"
    by (auto simp: nn_def)
  from foldl_fadd_fin [OF this, of 0] obtain s where s: "fsum w = Fin s" "0 \<le> s"
    by (auto simp: fsum_def)
  show ?thesis
  proof (cases "w = []")
    case True
    then show ?thesis by (simp add: fsum_def inf_of_sign_def)
  next
    case False
    with s show ?thesis by simp
  qed
qed

lemma set_window: "set (window p i xs) \<subseteq> set xs"
  unfolding window_def by (meson set_take_subset set_drop_subset subset_trans)

lemma rolling_mean_nn:
  assumes "\<forall>x \<in> set xs. nn x"
  shows "\<forall>y \<in> set (rolling_mean p xs). nn y"
proof
  fix y assume "y \<in> set (rolling_mean p xs)"
  then obtain i where y: "y = (if i + 1 < p \<or> NaN \<in> set (window p i xs) then NaN
       else fdiv (fsum (window p i xs)) (Fin (real (length (window p i xs)))))"
    unfolding rolling_mean_def rolling_def set_map by (elim imageE)
  show "nn y"
  proof (cases "i + 1 < p \<or> NaN \<in> set (window p i xs)")
    case True
    with y show ?thesis by simp
  next
    case False
    have "\<forall>x \<in> set (window p i xs). nn x"
      using assms set_window by blast
    with False y show ?thesis by (simp add: mean_window_nn)
  qed
qed

lemma avg_gain_nn: "\<forall>y \<in> set (rsi_avg_gain (map Fin cs) p). nn y"
  unfolding rsi_avg_gain_def Let_def
  using diff_fin_or_nan [of cs] by (intro rolling_mean_nn) (auto intro: gain_nn)

lemma avg_loss_nn: "\<forall>y \<in> set (rsi_avg_loss (map Fin cs) p). nn y"
  unfolding rsi_avg_loss_def Let_def
  using diff_fin_or_nan [of cs] by (intro rolling_mean_nn) (auto intro: loss_nn)

lemma replace_zero_nn:
  "\<forall>y \<in> set xs. nn y \<Longrightarrow>
   \<forall>y \<in> set (replace (Fin 0) NaN xs). y = NaN \<or> (\<exists>r. y = Fin r \<and> 0 < r)"
  by (auto simp: replace_def nn_def)

lemma fdiv_nn: "nn a \<Longrightarrow> b = NaN \<or> (\<exists>r. b = Fin r \<and> 0 < r) \<Longrightarrow> nn (fdiv a b)"
  by (auto simp: nn_def)

lemma rs_nn: "\<forall>y \<in> set (rsi_rs (map Fin cs) p). nn y"
proof
  fix y assume "y \<in> set (rsi_rs (map Fin cs) p)"
  then obtain a b where ab: "y = fdiv a b" "a \<in> set (rsi_avg_gain (map Fin cs) p)"
    "b \<in> set (replace (Fin 0) NaN (rsi_avg_loss (map Fin cs) p))"
    by (auto simp: rsi_rs_def dest: set_zip_leftD set_zip_rightD)
  from ab(2) have "nn a" using avg_gain_nn by blast
  moreover from ab(3) have "b = NaN \<or> (\<exists>r. b = Fin r \<and> 0 < r)"
    using replace_zero_nn [OF avg_loss_nn] by blast
  ultimately show "nn y" unfolding ab(1) by (rule fdiv_nn)
qed

lemma rsi_of_rs_range:
  "nn r \<Longrightarrow> fsub (Fin 100) (fdiv (Fin 100) (fadd (Fin 1) r)) = NaN
     \<or> (\<exists>v. fsub (Fin 100) (fdiv (Fin 100) (fadd (Fin 1) r)) = Fin v \<and> 0 \<le> v \<and> v \<le> 100)"
proof (cases r)
  case (Fin x)
  assume "nn r"
  with Fin have x: "0 \<le> x" by simp
  then have "100 / (1 + x) \<le> 100" by (simp add: divide_le_eq)
  moreover from x have "0 \<le> 100 / (1 + x)" by simp
  ultimately show ?thesis using Fin x by (simp add: fsub_def)
qed (simp_all add: fsub_def)

lemma rsi_range:
  "\<forall>x \<in> set (rsi (map Fin cs) p). x = NaN \<or> (\<exists>v. x = Fin v \<and> 0 \<le> v \<and> v \<le> 100)"
  unfolding rsi_def Let_def using rs_nn [of cs p] rsi_of_rs_range by auto

lemma length_rolling [simp]: "length (rolling f p xs) = length xs"
  by (simp add: rolling_def)

lemma length_diff [simp]: "length (diff xs) = length xs"
proof -
  have "length (diff_from p ys) = length ys" for p ys
    by (induction ys arbitrary: p) simp_all
  then show ?thesis by (cases xs) (simp_all add: diff_def)
qed

lemma length_rsi_parts [simp]:
  "length (rsi_avg_gain xs p) = length xs" "length (rsi_avg_loss xs p) = length xs"
  "length (rsi_rs xs p) = length xs" "length (rsi xs p) = length xs"
  by (simp_all add: rsi_def rsi_rs_def rsi_avg_gain_def rsi_avg_loss_def rolling_mean_def
      replace_def Let_def)

lemma rsi_nan_when_no_loss:
  assumes "i < length xs" "rsi_avg_loss xs p ! i = Fin 0"
  shows "rsi xs p ! i = NaN"
proof -
  have "rsi_rs xs p ! i = fdiv (rsi_avg_gain xs p ! i) NaN"
    using assms by (simp add: rsi_rs_def replace_def)
  also have "\<dots> = NaN" by (cases "rsi_avg_gain xs p ! i") simp_all
  finally show ?thesis using assms(1) by (simp add: rsi_def Let_def fsub_def)
qed

lemma dropna_no_nan: "r \<in> set (dropna rows) \<Longrightarrow> rsi14 r \<noteq> NaN \<and> adx14 r \<noteq> NaN"
  by (auto simp: dropna_def row_has_nan_def)

text \<open>
  Claim C7. For every series of closing prices, RSI(14) never divides by zero: the divisor
  series has every zero average loss replaced by NaN, and 1 + rs is never zero. Where the
  average loss is zero the RSI is NaN. Every RSI value is NaN or lies in [0, 100], and
  every row that survives \<open>dropna\<close>, so every row the scoring can see, has an RSI in
  [0, 100].
\<close>

theorem rsi_guards_zero_loss_and_stays_in_range:
  "length (rsi (map Fin closes) 14) = length closes
   \<and> (\<forall>d \<in> set (replace (Fin 0) NaN (rsi_avg_loss (map Fin closes) 14)). d \<noteq> Fin 0)
   \<and> (\<forall>r \<in> set (rsi_rs (map Fin closes) 14). fadd (Fin 1) r \<noteq> Fin 0)
   \<and> (\<forall>i < length closes. rsi_avg_loss (map Fin closes) 14 ! i = Fin 0 \<longrightarrow>
          rsi (map Fin closes) 14 ! i = NaN)
   \<and> (\<forall>x \<in> set (rsi (map Fin closes) 14).
          x = NaN \<or> (\<exists>v. x = Fin v \<and> 0 \<le> v \<and> v \<le> 100))
   \<and> (\<forall>rows. map rsi14 rows = rsi (map Fin closes) 14 \<longrightarrow>
          (\<forall>r \<in> set (dropna rows). \<exists>v. rsi14 r = Fin v \<and> 0 \<le> v \<and> v \<le> 100))"
proof (intro conjI allI impI ballI)
  show "length (rsi (map Fin closes) 14) = length closes" by simp
next
  fix d assume "d \<in> set (replace (Fin 0) NaN (rsi_avg_loss (map Fin closes) 14))"
  then show "d \<noteq> Fin 0" by (auto simp: replace_def)
next
  fix r assume "r \<in> set (rsi_rs (map Fin closes) 14)"
  then have "nn r" using rs_nn by blast
  then show "fadd (Fin 1) r \<noteq> Fin 0" by (cases r) simp_all
next
  fix i assume "i < length closes" "rsi_avg_loss (map Fin closes) 14 ! i = Fin 0"
  then show "rsi (map Fin closes) 14 ! i = NaN"
    by (intro rsi_nan_when_no_loss) simp_all
next
  fix x assume "x \<in> set (rsi (map Fin closes) 14)"
  then show "x = NaN \<or> (\<exists>v. x = Fin v \<and> 0 \<le> v \<and> v \<le> 100)"
    using rsi_range by blast
next
  fix rows r
  assume col: "map rsi14 rows = rsi (map Fin closes) 14" and r: "r \<in> set (dropna rows)"
  from r have "r \<in> set rows" by (simp add: dropna_def)
  then have "rsi14 r \<in> set (map rsi14 rows)" by simp
  with col have "rsi14 r \<in> set (rsi (map Fin closes) 14)" by simp
  then have "rsi14 r = NaN \<or> (\<exists>v. rsi14 r = Fin v \<and> 0 \<le> v \<and> v \<le> 100)"
    using rsi_range by blast
  with dropna_no_nan [OF r] show "\<exists>v. rsi14 r = Fin v \<and> 0 \<le> v \<and> v \<le> 100" by blast
qed

lemma example_rsi: "rsi (map Fin example_closes) 14 =
    [NaN, NaN, NaN, NaN, NaN, NaN, NaN, NaN, NaN, NaN, NaN, NaN, NaN, NaN,
     Fin (700 / 9), Fin (650 / 9)]"
  by code_simp

lemma rising_avg_loss: "rsi_avg_loss (map Fin rising_closes) 14 ! 15 = Fin 0"
  by code_simp

lemma example_frame_col: "map rsi14 example_frame = rsi (map Fin example_closes) 14"
  unfolding example_frame_def example_rsi by (simp add: example_closes_def)

lemma example_frame_dropna:
  "example_row\<lparr>close := Fin 10, rsi14 := Fin (650 / 9)\<rparr> \<in> set (dropna example_frame)"
  unfolding example_frame_def example_rsi
  by (simp add: example_closes_def dropna_def row_has_nan_def example_row_def)

theorem rsi_guards_zero_loss_and_stays_in_range_witness:
  "rsi_avg_loss (map Fin rising_closes) 14 ! 15 = Fin 0
   \<and> rsi (map Fin rising_closes) 14 ! 15 = NaN
   \<and> example_row\<lparr>close := Fin 10, rsi14 := Fin (650 / 9)\<rparr> \<in> set (dropna example_frame)
   \<and> (\<exists>v. Fin (650 / 9) = Fin v \<and> 0 \<le> v \<and> v \<le> 100)"
proof -
  have i: "15 < length rising_closes" by (simp add: rising_closes_def)
  from rsi_guards_zero_loss_and_stays_in_range [of rising_closes] i rising_avg_loss
  have a: "rsi (map Fin rising_closes) 14 ! 15 = NaN" by blast
  from rsi_guards_zero_loss_and_stays_in_range [of example_closes]
    example_frame_col example_frame_dropna
  have "\<exists>v. rsi14 (example_row\<lparr>close := Fin 10, rsi14 := Fin (650 / 9)\<rparr>) = Fin v
        \<and> 0 \<le> v \<and> v \<le> 100" by blast
  then have b: "\<exists>v. Fin (650 / 9) = Fin v \<and> 0 \<le> v \<and> v \<le> 100" by simp
  from rising_avg_loss a example_frame_dropna b show ?thesis by (intro conjI)
qed

lemma length_true_range [simp]: "length (true_range df) = length df"
  by (cases df) (simp_all add: true_range_def shift1_def Let_def)

lemma length_adx_parts [simp]:
  "length (atr df p) = length df"
  "length (adx_plus_dm df) = length df" "length (adx_minus_dm df) = length df"
  "length (adx_plus_di df p) = length df" "length (adx_minus_di df p) = length df"
  "length (adx_dx df p) = length df" "length (adx df p) = length df"
  by (simp_all add: atr_def adx_plus_dm_def adx_minus_dm_def adx_plus_di_def adx_minus_di_def
      adx_dx_def adx_def rolling_mean_def rolling_sum_def Let_def)

lemma dx_nan_when_both_zero:
  assumes "i < length df" "adx_plus_di df p ! i = Fin 0" "adx_minus_di df p ! i = Fin 0"
  shows "adx_dx df p ! i = NaN"
  using assms by (simp add: adx_dx_def fsub_def inf_of_sign_def)

lemma nth_in_window:
  assumes "i \<le> j" "j < i + p" "j < length xs"
  shows "xs ! i \<in> set (window p j xs)"
proof -
  let ?k = "j + 1 - p"
  have k: "?k \<le> i" using assms by simp
  have "i - ?k < length (take p (drop ?k xs))" using assms by auto
  moreover have "take p (drop ?k xs) ! (i - ?k) = xs ! i"
    using assms k by simp
  ultimately show ?thesis unfolding window_def by (metis nth_mem)
qed

lemma rolling_nan_in_window:
  assumes "j < length xs" "NaN \<in> set (window p j xs)"
  shows "rolling f p xs ! j = NaN"
  using assms by (simp add: rolling_def)

lemma adx_nan_after_nan_dx:
  assumes "adx_dx df p ! i = NaN" "i \<le> j" "j < i + p" "j < length df"
  shows "adx df p ! j = NaN"
proof -
  have "adx_dx df p ! i \<in> set (window p j (adx_dx df p))"
    using assms by (intro nth_in_window) simp_all
  with assms(1) have "NaN \<in> set (window p j (adx_dx df p))" by simp
  then show ?thesis
    unfolding adx_def rolling_mean_def using assms(4) by (intro rolling_nan_in_window) simp_all
qed

text \<open>
  Claim C8, amended. ADX(14) returns a value for every bar and never raises. At a bar where
  +DI and -DI are both zero, DX is NaN (0/0), and ADX is NaN at that bar and at the next 13
  bars; it is not zero. Rows with a NaN ADX do not survive \<open>dropna\<close>.
\<close>

theorem adx_undefined_when_both_di_zero:
  "length (adx df 14) = length df
   \<and> (\<forall>i < length df. adx_plus_di df 14 ! i = Fin 0 \<and> adx_minus_di df 14 ! i = Fin 0 \<longrightarrow>
         adx_dx df 14 ! i = NaN
       \<and> (\<forall>j. i \<le> j \<and> j < i + 14 \<and> j < length df \<longrightarrow> adx df 14 ! j = NaN))
   \<and> (\<forall>rows. map adx14 rows = adx df 14 \<longrightarrow> (\<forall>r \<in> set (dropna rows). adx14 r \<noteq> NaN))"
proof (intro conjI allI impI ballI)
  show "length (adx df 14) = length df" by simp
next
  fix i assume i: "i < length df"
    and z: "adx_plus_di df 14 ! i = Fin 0 \<and> adx_minus_di df 14 ! i = Fin 0"
  then show dx: "adx_dx df 14 ! i = NaN" by (simp add: dx_nan_when_both_zero)
  fix j assume "i \<le> j \<and> j < i + 14 \<and> j < length df"
  with dx show "adx df 14 ! j = NaN" by (intro adx_nan_after_nan_dx [of df 14 i]) simp_all
next
  fix rows r assume "r \<in> set (dropna rows)"
  then show "adx14 r \<noteq> NaN" by (simp add: dropna_no_nan)
qed

lemma fb_tr: "true_range flat_bars = replicate 27 (Fin 2)"
  by code_simp

lemma fb_pdm: "adx_plus_dm flat_bars = replicate 27 (Fin 0)"
  by code_simp

lemma fb_mdm: "adx_minus_dm flat_bars = replicate 27 (Fin 0)"
  by code_simp

lemma fb_atr1: "rolling_mean 1 (replicate 27 (Fin 2)) = replicate 27 (Fin 2)"
  by code_simp

lemma fb_rs_dm: "rolling_sum 14 (replicate 27 (Fin 0)) = replicate 13 NaN @ replicate 14 (Fin 0)"
  by code_simp

lemma fb_rs_tr: "rolling_sum 14 (replicate 27 (Fin 2)) = replicate 13 NaN @ replicate 14 (Fin 28)"
  by code_simp

lemma fb_pdi: "adx_plus_di flat_bars 14 = replicate 13 NaN @ replicate 14 (Fin 0)"
  by (simp only: adx_plus_di_def atr_def Let_def fb_tr fb_pdm fb_atr1 fb_rs_dm fb_rs_tr) code_simp

lemma fb_mdi: "adx_minus_di flat_bars 14 = replicate 13 NaN @ replicate 14 (Fin 0)"
  by (simp only: adx_minus_di_def atr_def Let_def fb_tr fb_mdm fb_atr1 fb_rs_dm fb_rs_tr) code_simp

lemma fb_dx: "adx_dx flat_bars 14 = replicate 27 NaN"
  by (simp only: adx_dx_def fb_pdi fb_mdi) code_simp

lemma fb_adx: "adx flat_bars 14 = replicate 27 NaN"
  by (simp only: adx_def fb_dx) code_simp

lemma tb_tr: "true_range trend_bars = replicate 27 (Fin 2)"
  by code_simp

lemma tb_pdm: "adx_plus_dm trend_bars = Fin 0 # replicate 26 (Fin 1)"
  by code_simp

lemma tb_mdm: "adx_minus_dm trend_bars = replicate 27 (Fin 0)"
  by code_simp

lemma tb_rs_pdm: "rolling_sum 14 (Fin 0 # replicate 26 (Fin 1)) =
    replicate 13 NaN @ Fin 13 # replicate 13 (Fin 14)"
  by code_simp

lemma tb_pdi: "adx_plus_di trend_bars 14 = replicate 13 NaN @ Fin (325 / 7) # replicate 13 (Fin 50)"
  by (simp only: adx_plus_di_def atr_def Let_def tb_tr tb_pdm fb_atr1 tb_rs_pdm fb_rs_tr) code_simp

lemma tb_mdi: "adx_minus_di trend_bars 14 = replicate 13 NaN @ replicate 14 (Fin 0)"
  by (simp only: adx_minus_di_def atr_def Let_def tb_tr tb_mdm fb_atr1 fb_rs_dm fb_rs_tr) code_simp

lemma tb_dx: "adx_dx trend_bars 14 = replicate 13 NaN @ replicate 14 (Fin 100)"
  by (simp only: adx_dx_def tb_pdi tb_mdi) code_simp

lemma tb_adx: "adx trend_bars 14 = replicate 26 NaN @ [Fin 100]"
  by (simp only: adx_def tb_dx) code_simp

theorem adx_undefined_when_both_di_zero_witness:
  "adx_plus_di flat_bars 14 ! 13 = Fin 0 \<and> adx_minus_di flat_bars 14 ! 13 = Fin 0
   \<and> adx_dx flat_bars 14 ! 13 = NaN \<and> adx flat_bars 14 ! 26 = NaN
   \<and> example_row\<lparr>adx14 := Fin 100\<rparr> \<in> set (dropna trend_frame)"
proof -
  have len: "13 < length flat_bars" "26 < length flat_bars" by (simp_all add: flat_bars_def)
  have di: "adx_plus_di flat_bars 14 ! 13 = Fin 0" "adx_minus_di flat_bars 14 ! 13 = Fin 0"
    by (simp_all add: fb_pdi fb_mdi nth_append)
  from adx_undefined_when_both_di_zero [of flat_bars] len(1) di
  have dx: "adx_dx flat_bars 14 ! 13 = NaN"
    and win: "\<forall>j. 13 \<le> j \<and> j < 13 + 14 \<and> j < length flat_bars \<longrightarrow> adx flat_bars 14 ! j = NaN"
    by blast+
  from win len(2) have a: "adx flat_bars 14 ! 26 = NaN" by simp
  have mem: "example_row\<lparr>adx14 := Fin 100\<rparr> \<in> set trend_frame"
    unfolding trend_frame_def tb_adx by simp
  have "\<not> row_has_nan (example_row\<lparr>adx14 := Fin 100\<rparr>)"
    by (simp add: row_has_nan_def example_row_def)
  with mem have r: "example_row\<lparr>adx14 := Fin 100\<rparr> \<in> set (dropna trend_frame)"
    by (simp add: dropna_def)
  from di dx a r show ?thesis by (intro conjI)
qed

text \<open>
  Claim C8 as stated fails: on 27 bars of a market that does not move, +DI and -DI are both
  zero at the last bar and ADX there is NaN, not zero.
\<close>

theorem adx_zero_di_counterexample:
  "26 < length flat_bars \<and> adx_plus_di flat_bars 14 ! 26 = Fin 0
   \<and> adx_minus_di flat_bars 14 ! 26 = Fin 0 \<and> adx flat_bars 14 ! 26 = NaN
   \<and> adx flat_bars 14 ! 26 \<noteq> Fin 0"
proof -
  have "length flat_bars = 27" by (simp add: flat_bars_def)
  then show ?thesis by (simp add: fb_pdi fb_mdi fb_adx nth_append)
qed

lemma sorted_hd_min: "sorted ys \<Longrightarrow> y \<in> set ys \<Longrightarrow> hd ys \<le> (y::int)"
  by (cases ys) auto

lemma hd_filter_props:
  "filter P xs \<noteq> [] \<Longrightarrow> hd (filter P xs) \<in> set xs \<and> P (hd (filter P xs))"
  by (induction xs) auto

lemma sorted_filter_sort: "sorted (filter P (sort (xs::int list)))"
  by (rule sorted_wrt_filter) simp

lemma hd_filter_sorted:
  assumes "first_bar_on_or_after df t row"
  shows "filter (\<lambda>d. d \<ge> t) (sort (map fst df)) \<noteq> []"
    and "hd (filter (\<lambda>d. d \<ge> t) (sort (map fst df))) = fst row"
proof -
  let ?ys = "filter (\<lambda>d. d \<ge> t) (sort (map fst df))"
  from assms have row: "row \<in> set df" "t \<le> fst row"
    and least: "\<forall>r \<in> set df. t \<le> fst r \<longrightarrow> fst row \<le> fst r"
    by (auto simp: first_bar_on_or_after_def)
  from row(1) have "fst row \<in> fst ` set df" by (rule imageI)
  with row(2) have mem: "fst row \<in> set ?ys" by simp
  then show ne: "?ys \<noteq> []" by (metis empty_iff empty_set)
  have srt: "sorted ?ys" by (rule sorted_filter_sort)
  from srt mem have le: "hd ?ys \<le> fst row" by (rule sorted_hd_min)
  from hd_filter_props [OF ne] have hdm: "hd ?ys \<in> fst ` set df" and t: "t \<le> hd ?ys"
    by simp_all
  from hdm obtain r where r: "hd ?ys = fst r" "r \<in> set df" by (rule imageE)
  with least t have "fst row \<le> hd ?ys" by simp
  with le show "hd ?ys = fst row" by simp
qed

lemma filter_none_on_or_after:
  "no_bar_on_or_after df t \<Longrightarrow> filter (\<lambda>d. d \<ge> t) (sort (map fst df)) = []"
  by (auto simp: no_bar_on_or_after_def filter_empty_conv)

lemma filter_key_distinct:
  "distinct (map fst df) \<Longrightarrow> row \<in> set df \<Longrightarrow> filter (\<lambda>r. fst r = fst row) df = [row]"
proof (induction df)
  case Nil
  then show ?case by simp
next
  case (Cons x df)
  show ?case
  proof (cases "x = row")
    case True
    with Cons.prems have "fst row \<notin> fst ` set df" by simp
    then have "\<forall>r \<in> set df. fst r \<noteq> fst row" by (metis image_eqI)
    then have "filter (\<lambda>r. fst r = fst row) df = []" by (simp add: filter_empty_conv)
    with True show ?thesis by simp
  next
    case False
    with Cons.prems have "row \<in> set df" by simp
    moreover from this Cons.prems have "fst x \<noteq> fst row" by (metis distinct.simps(2) image_eqI list.simps(9) set_map)
    ultimately show ?thesis using Cons by simp
  qed
qed

lemma loc_close_distinct:
  "distinct (map fst df) \<Longrightarrow> row \<in> set df \<Longrightarrow> loc_close df (fst row) = Inr (Fin (snd row))"
  by (simp add: loc_close_def filter_key_distinct)

lemma bar_cases:
  "no_bar_on_or_after df t \<or> (\<exists>row. first_bar_on_or_after df t row)"
proof (cases "no_bar_on_or_after df t")
  case True
  then show ?thesis by simp
next
  case False
  let ?ys = "filter (\<lambda>d. d \<ge> t) (sort (map fst df))"
  from False obtain r0 where "r0 \<in> set df" "t \<le> fst r0"
    by (auto simp: no_bar_on_or_after_def not_less)
  then have "fst r0 \<in> set ?ys" by simp
  then have ne: "?ys \<noteq> []" by (metis empty_iff empty_set)
  from hd_filter_props [OF ne] have hdm: "hd ?ys \<in> fst ` set df" and t: "t \<le> hd ?ys"
    by simp_all
  from hdm obtain row where row0: "hd ?ys = fst row" "row \<in> set df" by (rule imageE)
  with t have row: "row \<in> set df" "fst row = hd ?ys" "t \<le> fst row" by simp_all
  have srt: "sorted ?ys" by (rule sorted_filter_sort)
  have "\<forall>r \<in> set df. t \<le> fst r \<longrightarrow> hd ?ys \<le> fst r"
  proof (intro ballI impI)
    fix r assume "r \<in> set df" "t \<le> fst r"
    then have "fst r \<in> set ?ys" by simp
    with srt show "hd ?ys \<le> fst r" by (rule sorted_hd_min)
  qed
  with row have "first_bar_on_or_after df t row" by (simp add: first_bar_on_or_after_def)
  then show ?thesis by blast
qed

lemma get_future_price_both:
  assumes "distinct (map fst df)" "first_bar_on_or_after df signal_date e"
    "first_bar_on_or_after df (signal_date + h) f"
  shows "get_future_price df signal_date h = Inr (Fin (snd e), Fin (snd f))"
proof -
  from assms(2,3) have mem: "e \<in> set df" "f \<in> set df" by (auto simp: first_bar_on_or_after_def)
  then have "df \<noteq> []" by auto
  then show ?thesis
    unfolding get_future_price_def Let_def
    using hd_filter_sorted [OF assms(2)] hd_filter_sorted [OF assms(3)]
      loc_close_distinct [OF assms(1) mem(1)] loc_close_distinct [OF assms(1) mem(2)]
    by simp
qed

lemma get_future_price_no_future:
  assumes "distinct (map fst df)" "first_bar_on_or_after df signal_date e"
    "no_bar_on_or_after df (signal_date + h)"
  shows "get_future_price df signal_date h = Inr (Fin (snd e), NaN)"
proof -
  from assms(2) have mem: "e \<in> set df" by (auto simp: first_bar_on_or_after_def)
  then have "df \<noteq> []" by auto
  then show ?thesis
    unfolding get_future_price_def Let_def
    using hd_filter_sorted [OF assms(2)] filter_none_on_or_after [OF assms(3)]
      loc_close_distinct [OF assms(1) mem]
    by simp
qed

lemma get_future_price_no_entry:
  assumes "no_bar_on_or_after df signal_date"
  shows "get_future_price df signal_date h = Inr (NaN, NaN)"
  unfolding get_future_price_def Let_def
  using filter_none_on_or_after [OF assms] by simp

lemma forward_return_missing:
  assumes "distinct (map fst df)"
    and "no_bar_on_or_after df d \<or> no_bar_on_or_after df (d + h)"
  shows "forward_return df d h = Inr None"
proof (cases "no_bar_on_or_after df d")
  case True
  then show ?thesis
    by (simp add: forward_return_def get_future_price_no_entry isnan_def)
next
  case False
  with assms(2) have nf: "no_bar_on_or_after df (d + h)" by simp
  from False bar_cases [of df d] obtain e where "first_bar_on_or_after df d e" by blast
  from get_future_price_no_future [OF assms(1) this nf] show ?thesis
    by (simp add: forward_return_def isnan_def)
qed

lemma forward_return_defined:
  assumes "distinct (map fst df)" "first_bar_on_or_after df d e"
    "first_bar_on_or_after df (d + h) f" "snd e \<noteq> 0"
  shows "forward_return df d h = Inr (Some (Fin ((snd f - snd e) / snd e * 100)))"
  using get_future_price_both [OF assms(1-3)] assms(4)
  by (simp add: forward_return_def isnan_def py_float_truediv_def fsub_def)

lemma horizons_loop_cells:
  "horizons_loop df d hs cells = Inr cells' \<Longrightarrow>
   cells' h = (if h \<in> set hs
               then (case forward_return df d h of Inr (Some r) \<Rightarrow> Some r | _ \<Rightarrow> cells h)
               else cells h)"
proof (induction hs arbitrary: cells)
  case Nil
  then show ?case by simp
next
  case (Cons a hs)
  show ?case
  proof (cases "forward_return df d a")
    case (Inl e)
    with Cons.prems show ?thesis by simp
  next
    case (Inr res)
    show ?thesis
    proof (cases res)
      case None
      with Inr Cons.prems have "horizons_loop df d hs cells = Inr cells'" by simp
      from Cons.IH [OF this] Inr None show ?thesis by auto
    next
      case (Some ret)
      with Inr Cons.prems have "horizons_loop df d hs (cells(a \<mapsto> ret)) = Inr cells'" by simp
      note ih = Cons.IH [OF this]
      show ?thesis
      proof (cases "h = a")
        case True
        with ih Inr Some show ?thesis by simp
      next
        case False
        with ih show ?thesis by (simp split: sum.splits option.splits)
      qed
    qed
  qed
qed

lemma rows_loop_nth:
  "rows_loop prices hs rows = Inr out \<Longrightarrow> i < length rows \<Longrightarrow>
   length out = length rows
   \<and> (prices (s_symbol (rows ! i)) = None \<longrightarrow> out ! i = rows ! i)
   \<and> (\<forall>df. prices (s_symbol (rows ! i)) = Some df \<longrightarrow>
        (\<exists>cells. horizons_loop df (s_signal_date (rows ! i)) hs (s_returns (rows ! i)) = Inr cells
           \<and> out ! i = (rows ! i)\<lparr>s_returns := cells\<rparr>))"
proof (induction rows arbitrary: out i)
  case Nil
  then show ?case by simp
next
  case (Cons row rest)
  from Cons.prems(1) obtain out' where rest: "rows_loop prices hs rest = Inr out'"
    by (auto split: option.splits sum.splits)
  from Cons.prems(1) rest have out:
    "out = (case prices (s_symbol row) of None \<Rightarrow> row
            | Some df \<Rightarrow> (case horizons_loop df (s_signal_date row) hs (s_returns row) of
                 Inr cells \<Rightarrow> row\<lparr>s_returns := cells\<rparr> | Inl e \<Rightarrow> row)) # out'"
    by (auto split: option.splits sum.splits)
  have len: "length out' = length rest"
  proof (cases rest)
    case Nil
    with rest show ?thesis by simp
  next
    case (Cons r rs)
    then have "0 < length rest" by simp
    from Cons.IH [OF rest this] show ?thesis by simp
  qed
  show ?case
  proof (cases i)
    case 0
    with Cons.prems(1) rest out len show ?thesis
      by (auto split: option.splits sum.splits)
  next
    case (Suc j)
    with Cons.prems(2) have "j < length rest" by simp
    from Cons.IH [OF rest this] Suc out len show ?thesis by simp
  qed
qed

lemma foldl_nan_cells:
  "(foldl (\<lambda>m h. m(h \<mapsto> NaN)) m hs) h = (if h \<in> set hs then Some NaN else m h)"
  by (induction hs arbitrary: m) auto

lemma init_returns_nth:
  "i < length signals \<Longrightarrow>
   s_returns (init_returns hs signals ! i) h = (if h \<in> set hs then Some NaN else s_returns (signals ! i) h)
   \<and> s_symbol (init_returns hs signals ! i) = s_symbol (signals ! i)
   \<and> s_signal_date (init_returns hs signals ! i) = s_signal_date (signals ! i)"
  by (simp add: init_returns_def foldl_nan_cells)

lemma compute_forward_returns_cell:
  assumes "compute_forward_returns signals prices hs = Inr out" "i < length signals" "h \<in> set hs"
  shows "length out = length signals"
    and "prices (s_symbol (signals ! i)) = None \<Longrightarrow> s_returns (out ! i) h = Some NaN"
    and "prices (s_symbol (signals ! i)) = Some df \<Longrightarrow>
         s_returns (out ! i) h =
           (case forward_return df (s_signal_date (signals ! i)) h of
              Inr (Some r) \<Rightarrow> Some r | _ \<Rightarrow> Some NaN)"
proof -
  let ?rows = "init_returns hs signals"
  have len: "length ?rows = length signals" by (simp add: init_returns_def)
  from assms(1) have loop: "rows_loop prices hs ?rows = Inr out"
    by (simp add: compute_forward_returns_def)
  from assms(2) len have i: "i < length ?rows" by simp
  note nth = rows_loop_nth [OF loop i]
  note init = init_returns_nth [OF assms(2), of hs]
  from nth len show "length out = length signals" by simp
  { assume "prices (s_symbol (signals ! i)) = None"
    with nth init have "out ! i = ?rows ! i" by simp
    with init [of h] assms(3) show "s_returns (out ! i) h = Some NaN" by simp }
  { assume some: "prices (s_symbol (signals ! i)) = Some df"
    with nth init obtain cells where
      cells: "horizons_loop df (s_signal_date (signals ! i)) hs (s_returns (?rows ! i)) = Inr cells"
      and o: "out ! i = (?rows ! i)\<lparr>s_returns := cells\<rparr>"
      by auto
    from horizons_loop_cells [OF cells, of h] assms(3) init [of h] o
    show "s_returns (out ! i) h =
           (case forward_return df (s_signal_date (signals ! i)) h of
              Inr (Some r) \<Rightarrow> Some r | _ \<Rightarrow> Some NaN)"
      by (simp split: sum.splits option.splits) }
qed

lemma summarize_column_dropna:
  "summarize_column col = summarize_column (filter (\<lambda>x. \<not> isnan x) col)"
  by (simp add: summarize_column_def)

lemma summarize_column_all_nan:
  "(\<forall>x \<in> set col. isnan x) \<Longrightarrow> summarize_column col = None"
  by (simp add: summarize_column_def filter_empty_conv)

lemma summarize_column_n:
  "summarize_column col = Some st \<Longrightarrow> n_valid st = length (filter (\<lambda>x. \<not> isnan x) col)
     \<and> mean_ret st = series_mean (filter (\<lambda>x. \<not> isnan x) col)
     \<and> median_ret st = series_median (filter (\<lambda>x. \<not> isnan x) col)"
  by (auto simp: summarize_column_def Let_def split: if_splits)

lemma horizons_summary_entries:
  "horizons_summary df_dec hs = Inr res \<Longrightarrow> (h, st) \<in> set res \<Longrightarrow>
   \<exists>col. column df_dec h = Inr col \<and> st = summarize_column (filter (\<lambda>x. \<not> isnan x) col)"
proof (induction hs arbitrary: res)
  case Nil
  then show ?case by simp
next
  case (Cons a hs)
  from Cons.prems(1) obtain col rest where c: "column df_dec a = Inr col"
    "horizons_summary df_dec hs = Inr rest" "res = (a, summarize_column col) # rest"
    by (auto split: sum.splits)
  show ?case
  proof (cases "(h, st) = (a, summarize_column col)")
    case True
    with c(1) summarize_column_dropna [of col] show ?thesis by auto
  next
    case False
    with Cons.prems(2) c(3) have "(h, st) \<in> set rest" by auto
    from Cons.IH [OF c(2) this] show ?thesis .
  qed
qed

text \<open>
  Claim C9. On a price frame with unique dates, the entry price is the close of the first
  bar on or after the signal date and the future price is the close of the first bar on or
  after signal date + horizon; a frame without day D+3 but with day D+4 gives D+4's close
  for horizon 3. When either bar is missing the lookup gives NaN, the loop body does not
  raise and leaves the cell alone, and the cell of the returned frame is NaN, not zero. The
  summary of a column is computed from its non-NaN values only: NaN cells change neither
  mean, median, win rate nor count, and a column of NaN only has no statistics.
\<close>

theorem backtest_uses_first_available_bars:
  assumes "distinct (map fst df)"
  shows
   "(\<forall>e f. first_bar_on_or_after df signal_date e \<and> first_bar_on_or_after df (signal_date + h) f
        \<longrightarrow> get_future_price df signal_date h = Inr (Fin (snd e), Fin (snd f)))
    \<and> (\<forall>e c. first_bar_on_or_after df signal_date e \<and> (signal_date + 4, c) \<in> set df
           \<and> (\<forall>r \<in> set df. fst r \<noteq> signal_date + 3)
        \<longrightarrow> get_future_price df signal_date 3 = Inr (Fin (snd e), Fin c))
    \<and> (\<forall>e. first_bar_on_or_after df signal_date e \<and> no_bar_on_or_after df (signal_date + h)
        \<longrightarrow> get_future_price df signal_date h = Inr (Fin (snd e), NaN))
    \<and> (no_bar_on_or_after df signal_date \<longrightarrow> get_future_price df signal_date h = Inr (NaN, NaN))
    \<and> (no_bar_on_or_after df signal_date \<or> no_bar_on_or_after df (signal_date + h)
        \<longrightarrow> forward_return df signal_date h = Inr None)
    \<and> (\<forall>e f. first_bar_on_or_after df signal_date e \<and> first_bar_on_or_after df (signal_date + h) f
           \<and> snd e \<noteq> 0
        \<longrightarrow> forward_return df signal_date h = Inr (Some (Fin ((snd f - snd e) / snd e * 100))))
    \<and> (\<forall>signals prices horizons out i.
          compute_forward_returns signals prices horizons = Inr out \<and> i < length signals
          \<and> h \<in> set horizons \<and> prices (s_symbol (signals ! i)) = Some df
          \<and> s_signal_date (signals ! i) = signal_date
        \<longrightarrow> (no_bar_on_or_after df signal_date \<or> no_bar_on_or_after df (signal_date + h)
               \<longrightarrow> s_returns (out ! i) h = Some NaN)
          \<and> (\<forall>e f. first_bar_on_or_after df signal_date e
                 \<and> first_bar_on_or_after df (signal_date + h) f \<and> snd e \<noteq> 0
               \<longrightarrow> s_returns (out ! i) h = Some (Fin ((snd f - snd e) / snd e * 100))))
    \<and> (\<forall>col. summarize_column col = summarize_column (filter (\<lambda>x. \<not> isnan x) col))
    \<and> (\<forall>col. (\<forall>x \<in> set col. isnan x) \<longrightarrow> summarize_column col = None)
    \<and> (\<forall>col st. summarize_column col = Some st \<longrightarrow>
          n_valid st = length (filter (\<lambda>x. \<not> isnan x) col)
          \<and> mean_ret st = series_mean (filter (\<lambda>x. \<not> isnan x) col)
          \<and> median_ret st = series_median (filter (\<lambda>x. \<not> isnan x) col))
    \<and> (\<forall>df_dec hs res k st. horizons_summary df_dec hs = Inr res \<and> (k, st) \<in> set res \<longrightarrow>
          (\<exists>col. column df_dec k = Inr col
             \<and> st = summarize_column (filter (\<lambda>x. \<not> isnan x) col)))"
proof (intro conjI allI impI)
  fix e f
  assume "first_bar_on_or_after df signal_date e \<and> first_bar_on_or_after df (signal_date + h) f"
  then show "get_future_price df signal_date h = Inr (Fin (snd e), Fin (snd f))"
    using assms by (simp add: get_future_price_both)
next
  fix e c
  assume a: "first_bar_on_or_after df signal_date e \<and> (signal_date + 4, c) \<in> set df
           \<and> (\<forall>r \<in> set df. fst r \<noteq> signal_date + 3)"
  have "first_bar_on_or_after df (signal_date + 3) (signal_date + 4, c)"
    unfolding first_bar_on_or_after_def
  proof (intro conjI ballI impI)
    show "(signal_date + 4, c) \<in> set df" using a by simp
    show "signal_date + 3 \<le> fst (signal_date + 4, c)" by simp
    fix r assume "r \<in> set df" "signal_date + 3 \<le> fst r"
    with a have "fst r \<noteq> signal_date + 3" by blast
    with \<open>signal_date + 3 \<le> fst r\<close> show "fst (signal_date + 4, c) \<le> fst r" by simp
  qed
  with a get_future_price_both [OF assms, of signal_date e 3 "(signal_date + 4, c)"]
  show "get_future_price df signal_date 3 = Inr (Fin (snd e), Fin c)" by simp
next
  fix e
  assume "first_bar_on_or_after df signal_date e \<and> no_bar_on_or_after df (signal_date + h)"
  then show "get_future_price df signal_date h = Inr (Fin (snd e), NaN)"
    using assms by (simp add: get_future_price_no_future)
next
  assume "no_bar_on_or_after df signal_date"
  then show "get_future_price df signal_date h = Inr (NaN, NaN)"
    by (rule get_future_price_no_entry)
next
  assume "no_bar_on_or_after df signal_date \<or> no_bar_on_or_after df (signal_date + h)"
  with assms show "forward_return df signal_date h = Inr None"
    by (rule forward_return_missing)
next
  fix e f
  assume "first_bar_on_or_after df signal_date e \<and> first_bar_on_or_after df (signal_date + h) f
           \<and> snd e \<noteq> 0"
  then show "forward_return df signal_date h = Inr (Some (Fin ((snd f - snd e) / snd e * 100)))"
    using assms forward_return_defined by blast
next
  fix signals prices horizons out i
  assume a: "compute_forward_returns signals prices horizons = Inr out \<and> i < length signals
          \<and> h \<in> set horizons \<and> prices (s_symbol (signals ! i)) = Some df
          \<and> s_signal_date (signals ! i) = signal_date"
  then have cell: "s_returns (out ! i) h =
           (case forward_return df signal_date h of Inr (Some r) \<Rightarrow> Some r | _ \<Rightarrow> Some NaN)"
    using compute_forward_returns_cell(3) [of signals prices horizons out i h df] by simp
  { assume "no_bar_on_or_after df signal_date \<or> no_bar_on_or_after df (signal_date + h)"
    with assms have "forward_return df signal_date h = Inr None" by (rule forward_return_missing)
    with cell show "s_returns (out ! i) h = Some NaN" by simp }
  { fix e f
    assume "first_bar_on_or_after df signal_date e
                 \<and> first_bar_on_or_after df (signal_date + h) f \<and> snd e \<noteq> 0"
    then have "forward_return df signal_date h = Inr (Some (Fin ((snd f - snd e) / snd e * 100)))"
      using assms forward_return_defined by blast
    with cell show "s_returns (out ! i) h = Some (Fin ((snd f - snd e) / snd e * 100))" by simp }
next
  fix col
  show "summarize_column col = summarize_column (filter (\<lambda>x. \<not> isnan x) col)"
    by (rule summarize_column_dropna)
next
  fix col assume "\<forall>x \<in> set col. isnan x"
  then show "summarize_column col = None" by (rule summarize_column_all_nan)
next
  fix col st assume st: "summarize_column col = Some st"
  from summarize_column_n [OF st]
  show "n_valid st = length (filter (\<lambda>x. \<not> isnan x) col)"
    "mean_ret st = series_mean (filter (\<lambda>x. \<not> isnan x) col)"
    "median_ret st = series_median (filter (\<lambda>x. \<not> isnan x) col)"
    by simp_all
next
  fix df_dec hs res k st
  assume "horizons_summary df_dec hs = Inr res \<and> (k, st) \<in> set res"
  then show "\<exists>col. column df_dec k = Inr col
             \<and> st = summarize_column (filter (\<lambda>x. \<not> isnan x) col)"
    using horizons_summary_entries by blast
qed

lemma example_prices_facts:
  "distinct (map fst example_prices)"
  "first_bar_on_or_after example_prices 100 (100, 50)"
  "(100 + 4, 55) \<in> set example_prices"
  "\<forall>r \<in> set example_prices. fst r \<noteq> 100 + 3"
  "no_bar_on_or_after example_prices (100 + 6)"
  by (simp_all add: example_prices_def first_bar_on_or_after_def no_bar_on_or_after_def)

lemma example_returns_ok:
  "\<not> isl (compute_forward_returns example_signals example_price_map [3, 6])"
  by code_simp

theorem backtest_uses_first_available_bars_witness:
  "get_future_price example_prices 100 3 = Inr (Fin 50, Fin 55)
   \<and> get_future_price example_prices 100 6 = Inr (Fin 50, NaN)
   \<and> forward_return example_prices 100 6 = Inr None
   \<and> (\<exists>out. compute_forward_returns example_signals example_price_map [3, 6] = Inr out
         \<and> s_returns (out ! 0) 6 = Some NaN)
   \<and> summarize_column [Fin 10, NaN] = summarize_column [Fin 10]"
proof -
  note inst = backtest_uses_first_available_bars [OF example_prices_facts(1), of 100]
  note c2 = conjunct2
  from inst [of 3, THEN c2, THEN conjunct1, rule_format, of "(100, 50)" 55]
    example_prices_facts(2,3,4)
  have a: "get_future_price example_prices 100 3 = Inr (Fin 50, Fin 55)"
    by simp
  from inst [of 6, THEN c2, THEN c2, THEN conjunct1, rule_format, of "(100, 50)"]
    example_prices_facts(2,5)
  have b: "get_future_price example_prices 100 6 = Inr (Fin 50, NaN)"
    by simp
  from inst [of 6, THEN c2, THEN c2, THEN c2, THEN c2, THEN conjunct1, rule_format]
    example_prices_facts(5)
  have c: "forward_return example_prices 100 6 = Inr None"
    by simp
  from example_returns_ok obtain out where
    out: "compute_forward_returns example_signals example_price_map [3, 6] = Inr out"
    by (cases "compute_forward_returns example_signals example_price_map [3, 6]") auto
  have pre: "0 < length example_signals" "6 \<in> set [3, 6::int]"
    "example_price_map (s_symbol (example_signals ! 0)) = Some example_prices"
    "s_signal_date (example_signals ! 0) = 100"
    by (simp_all add: example_signals_def example_price_map_def)
  from inst [of 6, THEN c2, THEN c2, THEN c2, THEN c2, THEN c2, THEN c2, THEN conjunct1,
      rule_format, of example_signals example_price_map "[3, 6]" out 0, THEN conjunct1]
    out pre example_prices_facts(5)
  have d: "s_returns (out ! 0) 6 = Some NaN" by simp
  from inst [of 3, THEN c2, THEN c2, THEN c2, THEN c2, THEN c2, THEN c2, THEN c2, THEN conjunct1,
      rule_format, of "[Fin 10, NaN]"]
  have e: "summarize_column [Fin 10, NaN] = summarize_column [Fin 10]"
    by (simp add: isnan_def)
  from a b c out d e show ?thesis by auto
qed

end
